theory Spec2Isabelle
  imports Complex_Main "HOL-Library.Product_Lexorder" "HOL-Library.Option_ord"
    "HOL-Library.Char_ord" "HOL-Library.List_Lexorder" "HOL-Library.Sublist"
begin

section \<open>Python values shared by the modules\<close>

text \<open>
  A Python \<open>dict\<close> is modelled as an association list in insertion order; the keys of a
  dictionary are pairwise distinct. \<open>d.get(k)\<close> is \<open>dict_get\<close>, the assignment
  \<open>d[k] = v\<close> is \<open>dict_set\<close>: an existing key keeps its position, a new key is appended.
  Python floats are modelled as real numbers.
\<close>

definition dict_get :: "('k \<times> 'v) list \<Rightarrow> 'k \<Rightarrow> 'v option" where
  "dict_get d k = map_of d k"

fun dict_set :: "('k \<times> 'v) list \<Rightarrow> 'k \<Rightarrow> 'v \<Rightarrow> ('k \<times> 'v) list" where
  "dict_set [] k v = [(k, v)]"
| "dict_set ((k', v') # d) k v =
     (if k' = k then (k, v) # d else (k', v') # dict_set d k v)"

definition dict_keys :: "('k \<times> 'v) list \<Rightarrow> 'k list" where
  "dict_keys d = map fst d"

section \<open>atlas/cost\_structure.py: the cost-structure engine\<close>

type_synonym period = int
type_synonym period_values = "(period \<times> real) list"
type_synonym buckets = "(string \<times> period_values) list"
type_synonym elasticities = "(string \<times> (period \<times> real option) list) list"
type_synonym bucket_shares = "(string \<times> period_values) list"

record split_results =
  variable_cost :: "(period \<times> real) list"
  fixed_cost :: "(period \<times> real) list"
  variable_share :: "(period \<times> real option) list"
  total :: "(period \<times> real) list"

text \<open>\<open>_safe_div\<close>: \<open>None\<close> if an operand is missing or the denominator is zero.\<close>

definition safe_div :: "real option \<Rightarrow> real option \<Rightarrow> real option" where
  "safe_div num den =
     (case num of None \<Rightarrow> None
      | Some n \<Rightarrow> (case den of None \<Rightarrow> None
                   | Some d \<Rightarrow> if d = 0 then None else Some (n / d)))"

definition default_shares :: "(string \<times> real) list" where
  "default_shares =
     [(''COGS'', 1), (''RnD'', 0), (''SalesMarketing'', 1 / 2), (''GandA'', 0)]"

text \<open>\<open>elasticities.get(bucket, {}).get(p)\<close>\<close>

definition elasticity_at :: "elasticities \<Rightarrow> string \<Rightarrow> period \<Rightarrow> real option" where
  "elasticity_at el bucket p =
     (case dict_get el bucket of None \<Rightarrow> None
      | Some d \<Rightarrow> (case dict_get d p of None \<Rightarrow> None | Some e \<Rightarrow> e))"

text \<open>
  The share of one bucket in one period: the elasticity clamped to \<open>[0, 1]\<close> when there is
  one, \<open>default_shares.get(bucket, 0.0)\<close> otherwise.
\<close>

definition bucket_share :: "elasticities \<Rightarrow> string \<Rightarrow> period \<Rightarrow> real" where
  "bucket_share el bucket p =
     (case elasticity_at el bucket p of
        Some elas \<Rightarrow> max 0 (min elas 1)
      | None \<Rightarrow> (case dict_get default_shares bucket of Some s \<Rightarrow> s | None \<Rightarrow> 0))"

text \<open>
  \<open>bucket_variable_shares[bucket][p] = share\<close>. The outer dictionary is created with every
  bucket as a key, so the outer lookup always succeeds.
\<close>

fun set_bucket_share :: "bucket_shares \<Rightarrow> string \<Rightarrow> period \<Rightarrow> real \<Rightarrow> bucket_shares" where
  "set_bucket_share [] bucket p share = []"
| "set_bucket_share ((b, d) # rest) bucket p share =
     (if b = bucket then (b, dict_set d p share) # rest
      else (b, d) # set_bucket_share rest bucket p share)"

text \<open>
  The inner loop \<open>for bucket, data in buckets.items()\<close> of one period: the running
  \<open>total_cost\<close>, \<open>total_variable\<close> and the per-bucket shares. A bucket without a cost in
  the period is skipped.
\<close>

fun split_buckets ::
  "elasticities \<Rightarrow> period \<Rightarrow> buckets \<Rightarrow> real \<times> real \<times> bucket_shares
     \<Rightarrow> real \<times> real \<times> bucket_shares" where
  "split_buckets el p [] acc = acc"
| "split_buckets el p ((bucket, data) # rest) (total_cost, total_variable, bvs) =
     (case dict_get data p of
        None \<Rightarrow> split_buckets el p rest (total_cost, total_variable, bvs)
      | Some cost \<Rightarrow>
          split_buckets el p rest
            (total_cost + cost,
             total_variable + cost * bucket_share el bucket p,
             set_bucket_share bvs bucket p (bucket_share el bucket p)))"

text \<open>The outer loop \<open>for p in sorted_periods\<close>.\<close>

fun split_periods ::
  "elasticities \<Rightarrow> buckets \<Rightarrow> period list \<Rightarrow> split_results \<times> bucket_shares
     \<Rightarrow> split_results \<times> bucket_shares" where
  "split_periods el bs [] acc = acc"
| "split_periods el bs (p # ps) (results, bvs) =
     (case split_buckets el p bs (0, 0, bvs) of
        (total_cost, total_variable, bvs') \<Rightarrow>
          split_periods el bs ps
            (\<lparr> variable_cost = dict_set (variable_cost results) p total_variable,
               fixed_cost = dict_set (fixed_cost results) p (total_cost - total_variable),
               variable_share = dict_set (variable_share results) p
                   (safe_div (Some total_variable) (Some total_cost)),
               total = dict_set (total results) p total_cost \<rparr>,
             bvs'))"

text \<open>
  \<open>compute_fixed_variable_split(buckets, elasticities, volume_series)\<close>. The periods are
  the keys of all buckets, collected in a set and sorted; \<open>volume_series\<close> is not read.
\<close>

definition compute_fixed_variable_split ::
  "buckets \<Rightarrow> elasticities \<Rightarrow> (period \<times> real) list \<Rightarrow> split_results \<times> bucket_shares" where
  "compute_fixed_variable_split bs el volume_series =
     (let sorted_periods = sort (remdups (concat (map (\<lambda>(b, data). dict_keys data) bs)));
          results = \<lparr> variable_cost = [], fixed_cost = [], variable_share = [], total = [] \<rparr>;
          bucket_variable_shares = map (\<lambda>(b, data). (b, [])) bs
      in split_periods el bs sorted_periods (results, bucket_variable_shares))"

text \<open>The cost buckets of the scenario of the specification, all in one period \<open>p\<close>.\<close>

definition scenario_buckets :: "period \<Rightarrow> buckets" where
  "scenario_buckets p =
     [(''COGS'', [(p, 600)]), (''RnD'', [(p, 100)]),
      (''SalesMarketing'', [(p, 150)]), (''GandA'', [(p, 50)])]"

section \<open>Python strings\<close>

text \<open>
  Strings are ASCII byte strings. \<open>str.lower\<close> and \<open>str.upper\<close> map the 26 letters and
  leave every other character alone; \<open>str.strip\<close> and \<open>str.split\<close> (without argument)
  treat the ASCII whitespace characters of Python as blanks.
\<close>

definition is_space :: "char \<Rightarrow> bool" where
  "is_space c =
     (c \<in> set [CHR 0x09, CHR 0x0A, CHR 0x0B, CHR 0x0C, CHR 0x0D,
                CHR 0x1C, CHR 0x1D, CHR 0x1E, CHR 0x1F, CHR '' ''])"

definition lower_char :: "char \<Rightarrow> char" where
  "lower_char c =
     (case map_of (zip ''ABCDEFGHIJKLMNOPQRSTUVWXYZ'' ''abcdefghijklmnopqrstuvwxyz'') c of
        Some l \<Rightarrow> l | None \<Rightarrow> c)"

definition upper_char :: "char \<Rightarrow> char" where
  "upper_char c =
     (case map_of (zip ''abcdefghijklmnopqrstuvwxyz'' ''ABCDEFGHIJKLMNOPQRSTUVWXYZ'') c of
        Some u \<Rightarrow> u | None \<Rightarrow> c)"

definition py_lower :: "string \<Rightarrow> string" where
  "py_lower s = map lower_char s"

definition py_upper :: "string \<Rightarrow> string" where
  "py_upper s = map upper_char s"

definition py_strip :: "string \<Rightarrow> string" where
  "py_strip s = rev (dropWhile is_space (rev (dropWhile is_space s)))"

text \<open>\<open>s.split()\<close>: the maximal runs of non-blank characters; \<open>w\<close> is the word being read.\<close>

fun split_acc :: "string \<Rightarrow> string \<Rightarrow> string list" where
  "split_acc w [] = (if w = [] then [] else [w])"
| "split_acc w (c # cs) =
     (if is_space c then (if w = [] then split_acc [] cs else w # split_acc [] cs)
      else split_acc (w @ [c]) cs)"

definition py_split :: "string \<Rightarrow> string list" where
  "py_split s = split_acc [] s"

definition startswith :: "string \<Rightarrow> string \<Rightarrow> bool" where
  "startswith s p = (take (length p) s = p)"

section \<open>xbrl/concept\_resolver.py: canonical concepts\<close>

definition CANONICAL_CLUSTERS :: "(string \<times> string list) list" where
  "CANONICAL_CLUSTERS =
     [(''Revenue'',
        [''RevenueFromContractWithCustomer'', ''SalesRevenueNet'', ''OperatingRevenue'',
         ''TotalRevenue'', ''Revenues'', ''us-gaap:RevenueFromContractWithCustomer'',
         ''ifrs-full:Revenue'']),
      (''CostOfRevenue'',
        [''CostOfRevenue'', ''CostOfGoodsSold'', ''CostOfGoodsAndServicesSold'',
         ''CostOfProductsSold'', ''COGS'', ''us-gaap:CostOfRevenue'',
         ''us-gaap:CostOfGoodsSold'']),
      (''OperatingIncome'',
        [''OperatingIncome'', ''OperatingProfit'', ''IncomeFromOperations'',
         ''OperatingLoss'', ''us-gaap:OperatingIncomeLoss'', ''EBIT'',
         ''EarningsBeforeInterestAndTaxes'', ''EarningsBeforeInterestTax'',
         ''EarningsBeforeInterestAndTax'', ''OperatingEarnings'',
         ''OperatingEarningsBeforeInterestAndTaxes'', ''IncomeBeforeInterestAndTaxes'',
         ''IncomeBeforeInterestTax'',
         ''us-gaap:IncomeLossFromContinuingOperationsBeforeIncomeTaxesExtraordinaryItemsNoncontrollingInterest'',
         ''us-gaap:IncomeLossFromContinuingOperationsBeforeIncomeTaxes'']),
      (''NetIncome'',
        [''NetIncome'', ''NetIncomeLoss'', ''ProfitLoss'', ''NetEarnings'',
         ''us-gaap:NetIncomeLoss'', ''ifrs-full:ProfitLoss'']),
      (''R&D'',
        [''ResearchAndDevelopmentExpense'', ''ResearchAndDevelopment'', ''RDExpense'',
         ''us-gaap:ResearchAndDevelopmentExpense'']),
      (''SalesMarketing'',
        [''SellingAndMarketingExpense'', ''MarketingExpense'', ''SalesAndMarketing'',
         ''us-gaap:SellingAndMarketingExpense'']),
      (''GandA'',
        [''SellingGeneralAndAdministrative'', ''GeneralAndAdministrative'', ''SG&A'',
         ''us-gaap:SellingGeneralAndAdministrativeExpense'']),
      (''PPE'',
        [''PropertyPlantAndEquipmentNet'', ''PropertyPlantEquipment'', ''FixedAssetsNet'',
         ''us-gaap:PropertyPlantAndEquipmentNet'']),
      (''Goodwill'',
        [''Goodwill'', ''us-gaap:Goodwill'', ''ifrs-full:Goodwill'']),
      (''Intangibles'',
        [''IntangibleAssetsNetExcludingGoodwill'', ''IntangibleAssetsNet'',
         ''IntangibleAssets'', ''us-gaap:IntangibleAssetsNetExcludingGoodwill'']),
      (''Cash'',
        [''CashAndCashEquivalents'', ''CashCashEquivalentsAndShortTermInvestments'',
         ''CashAndShortTermInvestments'', ''us-gaap:CashAndCashEquivalentsAtCarryingValue'']),
      (''SharesOutstanding'',
        [''WeightedAverageNumberOfSharesOutstandingBasic'',
         ''WeightedAverageSharesOutstanding'', ''CommonStockSharesOutstanding''])]"

text \<open>
  \<open>CANONICAL_LOOKUP = {alias: canonical for canonical, aliases in ... for alias in aliases}\<close>.
  No alias occurs twice, so no entry of the comprehension overwrites another.
\<close>

definition CANONICAL_LOOKUP :: "(string \<times> string) list" where
  "CANONICAL_LOOKUP =
     concat (map (\<lambda>(canonical, aliases). map (\<lambda>alias. (alias, canonical)) aliases)
       CANONICAL_CLUSTERS)"

text \<open>
  \<open>strip_prefix\<close>: the pattern \<open>^(us-gaap:|ifrs-full:)\<close>, matched ignoring case, is
  removed once at the start of the string.
\<close>

definition strip_prefix :: "string \<Rightarrow> string" where
  "strip_prefix concept =
     (if py_lower (take 8 concept) = ''us-gaap:'' then drop 8 concept
      else if py_lower (take 10 concept) = ''ifrs-full:'' then drop 10 concept
      else concept)"

text \<open>
  \<open>_simple_similarity(a, b)\<close>: 1 when the strings agree ignoring case, else the number of
  distinct common words over the number of words of \<open>a\<close>.
\<close>

definition simple_similarity :: "string \<Rightarrow> string \<Rightarrow> real" where
  "simple_similarity a b =
     (if py_lower a = py_lower b then 1
      else real (card (set (py_split (py_lower a)) \<inter> set (py_split (py_lower b))))
             / real (max (length (py_split (py_lower a))) 1))"

text \<open>
  The loop \<open>for alias, canonical in CANONICAL_LOOKUP.items()\<close> keeping the first alias of
  the highest score above \<open>best_score\<close>. In the embedding stage a call of
  \<open>embedding_similarity\<close> may raise (the result \<open>None\<close> of the score function), which
  leaves the loop: the result \<open>None\<close> of \<open>best_embedding\<close>.
\<close>

fun best_match ::
  "(string \<Rightarrow> real) \<Rightarrow> (string \<times> string) list \<Rightarrow> real \<times> string option
     \<Rightarrow> real \<times> string option" where
  "best_match score [] acc = acc"
| "best_match score ((alias, canonical) # rest) (best_score, best) =
     (if score alias > best_score then best_match score rest (score alias, Some canonical)
      else best_match score rest (best_score, best))"

fun best_embedding ::
  "(string \<Rightarrow> real option) \<Rightarrow> (string \<times> string) list \<Rightarrow> real \<times> string option
     \<Rightarrow> (real \<times> string option) option" where
  "best_embedding score [] acc = Some acc"
| "best_embedding score ((alias, canonical) # rest) (best_score, best) =
     (case score alias of
        None \<Rightarrow> None
      | Some s \<Rightarrow>
          if s > best_score then best_embedding score rest (s, Some canonical)
          else best_embedding score rest (best_score, best))"

text \<open>
  \<open>resolve(concept)\<close>. The embedding backend is not part of the repository: the function
  \<open>embedding_similarity\<close> is a parameter, \<open>None\<close> where the call raises (as it does on
  every call when the backend is not installed). \<open>best\<close> is \<open>None\<close> only while
  \<open>best_score\<close> is 0, below both thresholds, so a returned \<open>best\<close> is a concept.
\<close>

definition resolve :: "(string \<Rightarrow> string \<Rightarrow> real option) \<Rightarrow> string \<Rightarrow> string" where
  "resolve embedding_similarity concept =
     (let raw = py_strip concept; base = strip_prefix raw in
      case dict_get CANONICAL_LOOKUP raw of
        Some canonical \<Rightarrow> canonical
      | None \<Rightarrow>
          (case dict_get CANONICAL_LOOKUP base of
             Some canonical \<Rightarrow> canonical
           | None \<Rightarrow>
               (case best_match (simple_similarity base) CANONICAL_LOOKUP (0, None) of
                  (best_score, best) \<Rightarrow>
                    if best_score \<ge> 6 / 10 then (case best of Some c \<Rightarrow> c | None \<Rightarrow> base)
                    else
                      (case best_embedding (embedding_similarity base) CANONICAL_LOOKUP (0, None) of
                         None \<Rightarrow> base
                       | Some (best_score, best) \<Rightarrow>
                           if best_score \<ge> 55 / 100
                           then (case best of Some c \<Rightarrow> c | None \<Rightarrow> base)
                           else base))))"

text \<open>The embedding stage without its backend: every call raises.\<close>

definition no_embedding :: "string \<Rightarrow> string \<Rightarrow> real option" where
  "no_embedding a b = None"

section \<open>atlas/unit\_economics.py: the inputs of the identity solver\<close>

text \<open>
  A value of the \<open>inputs\<close> dictionary is a float or \<open>None\<close>. The truth value Python
  gives such a value in a condition (\<open>if cogs:\<close>): neither \<open>None\<close> nor zero.
\<close>

definition truthy :: "real option \<Rightarrow> bool" where
  "truthy v = (case v of None \<Rightarrow> False | Some x \<Rightarrow> x \<noteq> 0)"

type_synonym ue_model = "(string \<times> real option) list"

text \<open>The loop that fills the missing additive fields with \<open>0.0\<close>.\<close>

fun fill_additive :: "string list \<Rightarrow> ue_model \<Rightarrow> ue_model" where
  "fill_additive [] inputs = inputs"
| "fill_additive (k # ks) inputs =
     (case dict_get inputs k of
        Some (Some v) \<Rightarrow> fill_additive ks inputs
      | _ \<Rightarrow> fill_additive ks (dict_set inputs k (Some 0)))"

text \<open>
  The dictionary \<open>inputs\<close> that \<open>compute_unit_economics(atlas)\<close> assembles and hands to
  \<open>solve_missing_values\<close>, one function for each commented block of the source, in the
  order of the source. The accessor \<open>atlas.get(concept, year=None)\<close>, the consolidated
  volume driver found by \<open>resolve_all_segments\<close> and the end years of the facts of the
  filing (\<open>_extract_end_date_year\<close> over \<open>atlas.facts\<close>) are parameters.
\<close>

type_synonym atlas_get = "string \<Rightarrow> int option \<Rightarrow> real option"
type_synonym embedding = "string \<Rightarrow> string \<Rightarrow> real option"

text \<open>Basic P&L: revenue, operating income and the tax rate.\<close>

definition pnl_inputs :: "embedding \<Rightarrow> atlas_get \<Rightarrow> ue_model" where
  "pnl_inputs emb atlas_get =
     (let inputs = [];
          inputs = dict_set inputs ''Revenue'' (atlas_get (resolve emb ''Revenue'') None);
          inputs = dict_set inputs ''OperatingIncome''
                     (atlas_get (resolve emb ''OperatingIncome'') None);
          inputs = dict_set inputs ''TaxRate'' (Some (21 / 100));
          tax_provision = atlas_get (resolve emb ''IncomeTaxExpenseBenefit'') None;
          pre_tax = atlas_get (resolve emb
            ''IncomeLossFromContinuingOperationsBeforeIncomeTaxesExtraordinaryItemsNoncontrollingInterest'')
            None
      in if truthy tax_provision \<and> truthy pre_tax \<and> the pre_tax > 0
         then dict_set inputs ''TaxRate''
                (Some (max 0 (min (the tax_provision / the pre_tax) (1 / 2))))
         else inputs)"

text \<open>Volume: only when a driver name was found (\<open>if volume_driver_name:\<close>).\<close>

definition volume_inputs :: "embedding \<Rightarrow> atlas_get \<Rightarrow> string \<Rightarrow> ue_model \<Rightarrow> ue_model" where
  "volume_inputs emb atlas_get volume_driver_name inputs =
     (if volume_driver_name \<noteq> []
      then dict_set inputs ''VolumeDriver'' (atlas_get (resolve emb volume_driver_name) None)
      else inputs)"

text \<open>Cost of revenue, taken as fully variable.\<close>

definition cogs_inputs :: "embedding \<Rightarrow> atlas_get \<Rightarrow> ue_model \<Rightarrow> ue_model" where
  "cogs_inputs emb atlas_get inputs =
     (let cogs = atlas_get (resolve emb ''CostOfRevenue'') None;
          cogs = (if cogs = None then atlas_get (resolve emb ''CostOfGoodsAndServicesSold'') None
                  else cogs)
      in if truthy cogs then dict_set inputs ''COGS_variable'' (Some (the cogs * 1))
         else dict_set inputs ''COGS_variable'' (Some 0))"

text \<open>Acquisition and retention marketing, from marketing expense or else from SG&A.\<close>

definition marketing_inputs :: "embedding \<Rightarrow> atlas_get \<Rightarrow> ue_model \<Rightarrow> ue_model" where
  "marketing_inputs emb atlas_get inputs =
     (let sales_marketing = atlas_get (resolve emb ''SellingAndMarketingExpense'') None in
      if truthy sales_marketing
      then dict_set (dict_set inputs ''SalesMarketing'' (Some (the sales_marketing * (8 / 10))))
             ''RetentionMarketing'' (Some (the sales_marketing * (2 / 10)))
      else
        (let sga = atlas_get (resolve emb ''SellingGeneralAndAdministrative'') None in
         if truthy sga
         then dict_set (dict_set inputs ''SalesMarketing'' (Some (the sga * (4 / 10))))
                ''RetentionMarketing'' (Some (the sga * (1 / 10)))
         else inputs))"

text \<open>
  \<open>years = sorted(list(set(y for f in atlas.facts if y)))\<close>, where a year that is
  \<open>None\<close> or 0 is dropped.
\<close>

definition filing_years :: "int option list \<Rightarrow> int list" where
  "filing_years fact_years =
     sort (remdups (map the (filter (\<lambda>y. y \<noteq> None \<and> y \<noteq> Some 0) fact_years)))"

text \<open>Capital expenditure, R&D and the change in working capital.\<close>

definition reinvestment_inputs ::
  "embedding \<Rightarrow> atlas_get \<Rightarrow> int list \<Rightarrow> ue_model \<Rightarrow> ue_model" where
  "reinvestment_inputs emb atlas_get years inputs =
     (let inputs = dict_set inputs ''Capex'' (atlas_get (resolve emb ''CapitalExpenditures'') None);
          rnd = atlas_get (resolve emb ''ResearchAndDevelopmentExpense'') None;
          inputs = dict_set inputs ''RnD'' (if rnd = None then Some 0 else rnd)
      in if years \<noteq> []
         then (let latest_year = last years;
                   prev_year = latest_year - 1;
                   wc_curr = atlas_get (resolve emb ''WorkingCapital'') (Some latest_year);
                   wc_prev = atlas_get (resolve emb ''WorkingCapital'') (Some prev_year)
               in dict_set inputs ''DeltaWorkingCapital''
                    (if wc_curr \<noteq> None \<and> wc_prev \<noteq> None
                     then Some (the wc_curr - the wc_prev) else Some 0))
         else inputs)"

text \<open>Maintenance capital expenditure: depreciation minus the change in net fixed assets.\<close>

definition maintenance_capex :: "embedding \<Rightarrow> atlas_get \<Rightarrow> int list \<Rightarrow> real option" where
  "maintenance_capex emb atlas_get years =
     (let depr = atlas_get (resolve emb ''DepreciationAmortization'') None;
          ppe_curr = atlas_get (resolve emb ''PropertyPlantAndEquipmentNet'') None;
          ppe_prev = (if years \<noteq> []
                      then atlas_get (resolve emb ''PropertyPlantAndEquipmentNet'')
                             (Some (last years - 1))
                      else None)
      in if depr \<noteq> None \<and> ppe_curr \<noteq> None \<and> ppe_prev \<noteq> None
         then Some (max 0 (the depr - (the ppe_curr - the ppe_prev)))
         else None)"

text \<open>The components of invested capital.\<close>

definition roic_inputs :: "embedding \<Rightarrow> atlas_get \<Rightarrow> ue_model \<Rightarrow> ue_model" where
  "roic_inputs emb atlas_get inputs =
     (let inputs = dict_set inputs ''PPE''
                     (atlas_get (resolve emb ''PropertyPlantAndEquipmentNet'') None);
          inputs = dict_set inputs ''Goodwill'' (atlas_get (resolve emb ''Goodwill'') None);
          inputs = dict_set inputs ''AcquiredIntangibles''
                     (atlas_get (resolve emb ''IntangibleAssetsNetExcludingGoodwill'') None);
          wc = atlas_get (resolve emb ''WorkingCapital'') None;
          cash = atlas_get (resolve emb ''CashAndCashEquivalents'') None
      in dict_set inputs ''NetWorkingCapital''
           (if truthy wc \<and> truthy cash then Some (the wc - the cash) else Some 0))"

definition compute_unit_economics_inputs ::
  "embedding \<Rightarrow> atlas_get \<Rightarrow> string \<Rightarrow> int option list \<Rightarrow> ue_model" where
  "compute_unit_economics_inputs emb atlas_get volume_driver_name fact_years =
     (let inputs = pnl_inputs emb atlas_get;
          inputs = volume_inputs emb atlas_get volume_driver_name inputs;
          inputs = cogs_inputs emb atlas_get inputs;
          inputs = marketing_inputs emb atlas_get inputs;
          years = filing_years fact_years;
          inputs = reinvestment_inputs emb atlas_get years inputs;
          inputs = dict_set inputs ''MaintenanceCapex'' (maintenance_capex emb atlas_get years);
          inputs = roic_inputs emb atlas_get inputs
      in fill_additive
           [''PPE'', ''Goodwill'', ''AcquiredIntangibles'', ''Capex'', ''RnD'',
            ''DeltaWorkingCapital'']
           inputs)"

text \<open>A filing with a tax benefit of 30 on a pre-tax loss of 100, and one with a provision
  of 30 on a pre-tax income of 100.\<close>

definition loss_filing_get :: "string \<Rightarrow> int option \<Rightarrow> real option" where
  "loss_filing_get concept year =
     (if concept = ''IncomeTaxExpenseBenefit'' then Some (- 30)
      else if concept =
        ''IncomeLossFromContinuingOperationsBeforeIncomeTaxesExtraordinaryItemsNoncontrollingInterest''
      then Some (- 100)
      else None)"

definition profit_filing_get :: "string \<Rightarrow> int option \<Rightarrow> real option" where
  "profit_filing_get concept year =
     (if concept = ''IncomeTaxExpenseBenefit'' then Some 30
      else if concept =
        ''IncomeLossFromContinuingOperationsBeforeIncomeTaxesExtraordinaryItemsNoncontrollingInterest''
      then Some 100
      else None)"

section \<open>atlas/economic\_identities.py: the identity table\<close>

text \<open>
  The SymPy expressions of the module: symbols, numbers and the four arithmetic operations;
  an identity \<open>Eq(lhs, rhs)\<close> is the pair of its sides.
\<close>

datatype expr =
    Sym string
  | Num real
  | Add expr expr
  | Sub expr expr
  | Mul expr expr
  | Div expr expr

type_synonym equation = "expr \<times> expr"

definition IDENTITIES :: "(string \<times> equation) list" where
  "IDENTITIES =
     [(''CAC_Identity'',
         (Sym ''CAC'',
          Div (Sub (Sym ''SalesMarketing'') (Sym ''RetentionMarketing''))
              (Sym ''GrossNewCustomers''))),
      (''GrossNewCustomers_Identity'',
         (Sym ''GrossNewCustomers'', Add (Sym ''DeltaCustomers'') (Sym ''ChurnedCustomers''))),
      (''ChurnedCustomers_Identity'',
         (Sym ''ChurnedCustomers'', Mul (Sym ''Customers_start'') (Sym ''ChurnRate''))),
      (''ContributionMargin_Identity'',
         (Sym ''ContributionMarginPerUnit'',
          Div (Sub (Sym ''Revenue'') (Sym ''COGS_variable'')) (Sym ''VolumeDriver''))),
      (''UnitRevenue_Identity'',
         (Sym ''RevenuePerUnit'', Div (Sym ''Revenue'') (Sym ''VolumeDriver''))),
      (''VariableCostPerUnit_Identity'',
         (Sym ''VariableCostPerUnit'', Div (Sym ''COGS_variable'') (Sym ''VolumeDriver''))),
      (''ContributionMargin_Check'',
         (Sym ''ContributionMarginPerUnit'',
          Sub (Sym ''RevenuePerUnit'') (Sym ''VariableCostPerUnit''))),
      (''ReinvestmentRate_Identity'',
         (Sym ''ReinvestmentRate'',
          Div (Add (Add (Sym ''Capex'') (Sym ''DeltaWorkingCapital'')) (Sym ''RnD''))
              (Sym ''NOPAT''))),
      (''NOPAT_Identity'',
         (Sym ''NOPAT'', Mul (Sym ''OperatingIncome'') (Sub (Num 1) (Sym ''TaxRate'')))),
      (''InvestedCapital_Identity'',
         (Sym ''InvestedCapital'',
          Add (Add (Add (Sym ''PPE'') (Sym ''NetWorkingCapital'')) (Sym ''Goodwill''))
              (Sym ''AcquiredIntangibles''))),
      (''ROIC_Identity'',
         (Sym ''ROIC'', Div (Sym ''NOPAT'') (Sym ''InvestedCapital''))),
      (''COGS_Variable_Constraint'',
         (Sym ''COGS_variable'', Mul (Sym ''ElasticityRevenue'') (Sym ''Revenue''))),
      (''SalesCommissions_Constraint'',
         (Sym ''SalesCommissions'', Mul (Sym ''ElasticityNewUnits'') (Sym ''GrossNewCustomers''))),
      (''PaymentProcessing_Constraint'',
         (Sym ''PaymentProcessing'', Mul (Sym ''ElasticityRevShare'') (Sym ''Revenue'')))]"

fun expr_symbols :: "expr \<Rightarrow> string list" where
  "expr_symbols (Sym s) = [s]"
| "expr_symbols (Num r) = []"
| "expr_symbols (Add a b) = expr_symbols a @ expr_symbols b"
| "expr_symbols (Sub a b) = expr_symbols a @ expr_symbols b"
| "expr_symbols (Mul a b) = expr_symbols a @ expr_symbols b"
| "expr_symbols (Div a b) = expr_symbols a @ expr_symbols b"

text \<open>\<open>equation.free_symbols\<close>, by name.\<close>

definition free_symbols :: "equation \<Rightarrow> string list" where
  "free_symbols eq = remdups (expr_symbols (fst eq) @ expr_symbols (snd eq))"

datatype error = ValueError | IdentityError | SympyError

text \<open>
  SymPy itself is not part of the repository. The step
  \<open>solve(equation.subs(subs_dict), target_sym)\<close> is a parameter: given the equation, the
  substitution (a value may be \<open>None\<close>) and the name of the target symbol, either the
  call raises, or it returns the list of solutions, a solution being \<open>Some r\<close> when
  \<open>sol.is_real\<close> holds and \<open>float(sol)\<close> is \<open>r\<close>, and \<open>None\<close> when it is not real.
\<close>

type_synonym sympy_solve =
  "equation \<Rightarrow> (string \<times> real option) list \<Rightarrow> string \<Rightarrow> error + real option list"

text \<open>
  \<open>solve_identity(name, knowns, solve_for)\<close>: \<open>ValueError\<close> for an unknown identity, for a
  target that does not occur in it, and when there is no real solution; otherwise the
  first real solution.
\<close>

definition solve_identity ::
  "sympy_solve \<Rightarrow> string \<Rightarrow> ue_model \<Rightarrow> string \<Rightarrow> error + real" where
  "solve_identity sympy name knowns solve_for =
     (case dict_get IDENTITIES name of
        None \<Rightarrow> Inl ValueError
      | Some equation \<Rightarrow>
          if solve_for \<notin> set (free_symbols equation) then Inl ValueError
          else
            (let subs_dict = filter (\<lambda>(k, v). k \<in> set (free_symbols equation)) knowns in
             case sympy equation subs_dict solve_for of
               Inl e \<Rightarrow> Inl e
             | Inr solutions \<Rightarrow>
                 (case filter (\<lambda>sol. sol \<noteq> None) solutions of
                    [] \<Rightarrow> Inl ValueError
                  | sol # rest \<Rightarrow> Inr (the sol))))"

section \<open>atlas/identity\_solver.py: fixpoint propagation\<close>

text \<open>\<open>solve_unit_identity\<close> turns every exception into an \<open>IdentityError\<close>.\<close>

definition solve_unit_identity ::
  "sympy_solve \<Rightarrow> string \<Rightarrow> ue_model \<Rightarrow> string \<Rightarrow> error + real" where
  "solve_unit_identity sympy identity_name inputs solve_for =
     (case solve_identity sympy identity_name inputs solve_for of
        Inl e \<Rightarrow> Inl IdentityError
      | Inr v \<Rightarrow> Inr v)"

text \<open>\<open>updated.get(key)\<close>: \<open>None\<close> for an absent key and for a key bound to \<open>None\<close>.\<close>

definition model_get :: "ue_model \<Rightarrow> string \<Rightarrow> real option" where
  "model_get m k = (case dict_get m k of Some (Some v) \<Rightarrow> Some v | _ \<Rightarrow> None)"

text \<open>The table of solve rules: identity, target, required variables.\<close>

definition solvers :: "(string \<times> string \<times> string list) list" where
  "solvers =
     [(''CAC_Identity'', ''CAC'',
         [''SalesMarketing'', ''RetentionMarketing'', ''GrossNewCustomers'']),
      (''CAC_Identity'', ''GrossNewCustomers'',
         [''SalesMarketing'', ''RetentionMarketing'', ''CAC'']),
      (''UnitRevenue_Identity'', ''RevenuePerUnit'', [''Revenue'', ''VolumeDriver'']),
      (''VariableCostPerUnit_Identity'', ''VariableCostPerUnit'',
         [''COGS_variable'', ''VolumeDriver'']),
      (''ContributionMargin_Identity'', ''ContributionMarginPerUnit'',
         [''Revenue'', ''COGS_variable'', ''VolumeDriver'']),
      (''ContributionMargin_Check'', ''ContributionMarginPerUnit'',
         [''RevenuePerUnit'', ''VariableCostPerUnit'']),
      (''NOPAT_Identity'', ''NOPAT'', [''OperatingIncome'', ''TaxRate'']),
      (''ROIC_Identity'', ''ROIC'', [''NOPAT'', ''InvestedCapital'']),
      (''ReinvestmentRate_Identity'', ''ReinvestmentRate'',
         [''Capex'', ''DeltaWorkingCapital'', ''RnD'', ''NOPAT''])]"

text \<open>
  One pass of the loop \<open>for name, target, requires in solvers\<close>, carrying \<open>updated\<close> and
  the flag \<open>changed\<close>. A rule fires when its target is unknown and all it requires is
  known; a failed solve is swallowed by the bare \<open>except\<close>.
\<close>

fun run_solvers ::
  "sympy_solve \<Rightarrow> (string \<times> string \<times> string list) list \<Rightarrow> ue_model \<times> bool
     \<Rightarrow> ue_model \<times> bool" where
  "run_solvers sympy [] st = st"
| "run_solvers sympy ((name, target, requires) # rest) (updated, changed) =
     (if model_get updated target = None
         \<and> list_all (\<lambda>req. model_get updated req \<noteq> None) requires
      then (case solve_unit_identity sympy name updated target of
              Inr val \<Rightarrow> run_solvers sympy rest (dict_set updated target (Some val), True)
            | Inl e \<Rightarrow> run_solvers sympy rest (updated, changed))
      else run_solvers sympy rest (updated, changed))"

text \<open>
  The loop \<open>while changed\<close>: a pass that changed something is followed by another pass.
  The loop is defined without a termination argument; not returning is the value
  \<open>None\<close>.
\<close>

partial_function (option) solve_loop :: "sympy_solve \<Rightarrow> ue_model \<Rightarrow> ue_model option" where
  "solve_loop sympy updated =
     (case run_solvers sympy solvers (updated, False) of
        (updated', changed) \<Rightarrow> if changed then solve_loop sympy updated' else Some updated')"

definition solve_missing_values :: "sympy_solve \<Rightarrow> ue_model \<Rightarrow> ue_model option" where
  "solve_missing_values sympy ue_model = solve_loop sympy ue_model"

text \<open>The targets of the rule table, and those a model does not know yet.\<close>

definition solver_targets :: "string list" where
  "solver_targets = remdups (map (\<lambda>(name, target, requires). target) solvers)"

definition unknown_targets :: "ue_model \<Rightarrow> string list" where
  "unknown_targets m = filter (\<lambda>t. model_get m t = None) solver_targets"

text \<open>
  A stand-in for SymPy in the examples: it solves an equation whose left side is the
  target symbol by evaluating the right side over the substitution, and finds no solution
  where the right side has no value.
\<close>

fun eval_expr :: "(string \<times> real option) list \<Rightarrow> expr \<Rightarrow> real option" where
  "eval_expr subs (Sym s) = (case dict_get subs s of Some (Some v) \<Rightarrow> Some v | _ \<Rightarrow> None)"
| "eval_expr subs (Num r) = Some r"
| "eval_expr subs (Add a b) =
     (case (eval_expr subs a, eval_expr subs b) of
        (Some x, Some y) \<Rightarrow> Some (x + y) | _ \<Rightarrow> None)"
| "eval_expr subs (Sub a b) =
     (case (eval_expr subs a, eval_expr subs b) of
        (Some x, Some y) \<Rightarrow> Some (x - y) | _ \<Rightarrow> None)"
| "eval_expr subs (Mul a b) =
     (case (eval_expr subs a, eval_expr subs b) of
        (Some x, Some y) \<Rightarrow> Some (x * y) | _ \<Rightarrow> None)"
| "eval_expr subs (Div a b) =
     (case (eval_expr subs a, eval_expr subs b) of
        (Some x, Some y) \<Rightarrow> if y = 0 then None else Some (x / y) | _ \<Rightarrow> None)"

definition isolate_left :: sympy_solve where
  "isolate_left eq subs target =
     (if fst eq = Sym target
      then (case eval_expr subs (snd eq) of Some r \<Rightarrow> Inr [Some r] | None \<Rightarrow> Inr [])
      else Inl SympyError)"

text \<open>The inputs of the solver test of the repository, and the model it expects.\<close>

definition test_inputs :: ue_model where
  "test_inputs =
     [(''Revenue'', Some 1000), (''VolumeDriver'', Some 100), (''COGS_variable'', Some 300)]"

definition test_solved :: ue_model where
  "test_solved =
     [(''Revenue'', Some 1000), (''VolumeDriver'', Some 100), (''COGS_variable'', Some 300),
      (''RevenuePerUnit'', Some 10), (''VariableCostPerUnit'', Some 3),
      (''ContributionMarginPerUnit'', Some 7)]"

section \<open>atlas/economic\_identities.py: evaluating and solving an identity\<close>

text \<open>
  \<open>evaluate_identity(name, inputs)\<close>: the difference of the two sides under the inputs.
  \<open>evalf(subs=subs_dict)\<close> is \<open>eval_expr\<close>, over the real numbers: a side is a number when
  each of its symbols has a value and no division is by zero. Where a side is not a
  number, \<open>float(lhs_val - rhs_val)\<close> raises inside SymPy.
\<close>

definition evaluate_identity :: "string \<Rightarrow> ue_model \<Rightarrow> error + real" where
  "evaluate_identity name inputs =
     (case dict_get IDENTITIES name of
        None \<Rightarrow> Inl ValueError
      | Some equation \<Rightarrow>
          (let subs_dict = filter (\<lambda>(k, v). k \<in> set (free_symbols equation)) inputs in
           case (eval_expr subs_dict (fst equation), eval_expr subs_dict (snd equation)) of
             (Some lhs_val, Some rhs_val) \<Rightarrow> Inr (lhs_val - rhs_val)
           | _ \<Rightarrow> Inl SympyError))"

text \<open>Modelled from the spec: the algebraic isolation of the target that SymPy's \<open>solve\<close>
  performs, which is not part of the repository. The specification says of the solve
  step: ``algebraically isolate \<open>target\<close>, substitute the remaining knowns, and return the
  unique real solution''. \<open>isolate subs target e v\<close> solves \<open>e = v\<close> for the target by undoing
  the operations of \<open>e\<close> around it, the other operand being a number under the knowns;
  there is no unique solution where that operand has no value, where a product or
  quotient is taken with zero, and where the target is a divisor and the quotient or
  the dividend is zero.
\<close>

fun isolate :: "ue_model \<Rightarrow> string \<Rightarrow> expr \<Rightarrow> real \<Rightarrow> real option" where
  "isolate subs target (Sym s) v = (if s = target then Some v else None)"
| "isolate subs target (Num r) v = None"
| "isolate subs target (Add a b) v =
     (if target \<in> set (expr_symbols a)
      then (case eval_expr subs b of
              Some y \<Rightarrow> isolate subs target a (v - y) | None \<Rightarrow> None)
      else (case eval_expr subs a of
              Some x \<Rightarrow> isolate subs target b (v - x) | None \<Rightarrow> None))"
| "isolate subs target (Sub a b) v =
     (if target \<in> set (expr_symbols a)
      then (case eval_expr subs b of
              Some y \<Rightarrow> isolate subs target a (v + y) | None \<Rightarrow> None)
      else (case eval_expr subs a of
              Some x \<Rightarrow> isolate subs target b (x - v) | None \<Rightarrow> None))"
| "isolate subs target (Mul a b) v =
     (if target \<in> set (expr_symbols a)
      then (case eval_expr subs b of
              Some y \<Rightarrow> if y = 0 then None else isolate subs target a (v / y)
            | None \<Rightarrow> None)
      else (case eval_expr subs a of
              Some x \<Rightarrow> if x = 0 then None else isolate subs target b (v / x)
            | None \<Rightarrow> None))"
| "isolate subs target (Div a b) v =
     (if target \<in> set (expr_symbols a)
      then (case eval_expr subs b of
              Some y \<Rightarrow> if y = 0 then None else isolate subs target a (v * y)
            | None \<Rightarrow> None)
      else (case eval_expr subs a of
              Some x \<Rightarrow> if x = 0 \<or> v = 0 then None else isolate subs target b (x / v)
            | None \<Rightarrow> None))"

text \<open>Modelled from the spec: the step \<open>solve(equation.subs(subs_dict), target_sym)\<close> as the
  specification describes it, SymPy not being part of the repository: the list of the
  unique real solution, and the empty list where ``substitution leaves no real
  solution'' or leaves no occurrence of the target. A substitution that binds a symbol to
  \<open>None\<close> is refused.
\<close>

definition spec_solve :: sympy_solve where
  "spec_solve equation subs_dict target =
     (if \<exists>(k, v) \<in> set subs_dict. v = None then Inl SympyError
      else if dict_get subs_dict target \<noteq> None then Inr []
      else if target \<in> set (expr_symbols (fst equation))
      then (case eval_expr subs_dict (snd equation) of
              None \<Rightarrow> Inr []
            | Some v \<Rightarrow>
                (case isolate subs_dict target (fst equation) v of
                   None \<Rightarrow> Inr [] | Some r \<Rightarrow> Inr [Some r]))
      else (case eval_expr subs_dict (fst equation) of
              None \<Rightarrow> Inr []
            | Some v \<Rightarrow>
                (case isolate subs_dict target (snd equation) v of
                   None \<Rightarrow> Inr [] | Some r \<Rightarrow> Inr [Some r])))"

text \<open>The customer-acquisition figures of an example: cost 40 per customer, 500 spent on
  sales and marketing, 100 of them on retention.\<close>

definition acquisition_knowns :: ue_model where
  "acquisition_knowns =
     [(''CAC'', Some 40), (''SalesMarketing'', Some 500), (''RetentionMarketing'', Some 100),
      (''Revenue'', Some 1000)]"

section \<open>xbrl/concept\_resolver.py: matching a query against the tags of a filing\<close>

text \<open>\<open>sub in s\<close> for strings.\<close>

fun contains :: "string \<Rightarrow> string \<Rightarrow> bool" where
  "contains [] sub = (sub = [])"
| "contains (c # cs) sub = (take (length sub) (c # cs) = sub \<or> contains cs sub)"

definition classify_concept :: "string \<Rightarrow> string" where
  "classify_concept text =
     (let t = py_lower text in
      if contains t ''tax'' then ''Tax''
      else if contains t ''revenue'' \<or> contains t ''sales'' then ''Revenue''
      else if contains t ''cost of'' \<or> contains t ''cogs'' then ''COGS''
      else if contains t ''operating'' \<or> contains t ''ebit'' then ''Operating''
      else if contains t ''interest'' \<or> contains t ''debt'' then ''Financing''
      else if contains t ''share'' \<or> contains t ''eps'' then ''EPS''
      else if contains t ''income'' \<or> contains t ''loss'' \<or> contains t ''profit''
              \<or> contains t ''earnings'' then ''Operating''
      else ''Other'')"

definition is_upper :: "char \<Rightarrow> bool" where
  "is_upper c = (c \<in> set ''ABCDEFGHIJKLMNOPQRSTUVWXYZ'')"

definition is_lower :: "char \<Rightarrow> bool" where
  "is_lower c = (c \<in> set ''abcdefghijklmnopqrstuvwxyz'')"

text \<open>
  \<open>re.findall(r'[A-Z]?[a-z]+|[A-Z]+(?=[A-Z]|$)', text)\<close>, scanning from the left. At a
  position the first alternative matches an optional capital followed by the longest run
  of small letters. Otherwise the second alternative takes the longest run of capitals
  when it reaches the end of the text (or the newline that ends the text), and the run
  without its last capital when the run has at least two; a position where neither
  matches is skipped.
\<close>

function tokenize_list :: "string \<Rightarrow> string list" where
  "tokenize_list [] = []"
| "tokenize_list (c # cs) =
     (if is_lower c
      then (c # takeWhile is_lower cs) # tokenize_list (dropWhile is_lower cs)
      else if is_upper c \<and> cs \<noteq> [] \<and> is_lower (hd cs)
      then (c # takeWhile is_lower cs) # tokenize_list (dropWhile is_lower cs)
      else if is_upper c
      then (let run = c # takeWhile is_upper cs; rest = dropWhile is_upper cs in
            if rest = [] \<or> rest = [CHR 0x0A] then run # tokenize_list rest
            else if length run \<ge> 2 then butlast run # tokenize_list (last run # rest)
            else tokenize_list cs)
      else tokenize_list cs)"
  by pat_completeness auto
termination
proof (relation "measure length")
  show "wf (measure length)" by simp
next
  fix c :: char and cs :: string
  show "(dropWhile is_lower cs, c # cs) \<in> measure length"
    using length_dropWhile_le [of is_lower cs] by simp
  show "(dropWhile is_lower cs, c # cs) \<in> measure length"
    using length_dropWhile_le [of is_lower cs] by simp
next
  fix c :: char and cs :: string and run rest :: string
  assume "rest = dropWhile is_upper cs"
  then show "(rest, c # cs) \<in> measure length"
    using length_dropWhile_le [of is_upper cs] by simp
next
  fix c :: char and cs :: string and run rest :: string
  assume r: "run = c # takeWhile is_upper cs" "rest = dropWhile is_upper cs" "2 \<le> length run"
  have "length (takeWhile is_upper cs) + length (dropWhile is_upper cs) = length cs"
    by (metis length_append takeWhile_dropWhile_id)
  with r show "(last run # rest, c # cs) \<in> measure length" by simp
next
  fix c :: char and cs :: string
  show "(cs, c # cs) \<in> measure length" by simp
  show "(cs, c # cs) \<in> measure length" by simp
qed

definition tokenize :: "string \<Rightarrow> string set" where
  "tokenize text = set (tokenize_list text)"

definition keyword_overlap_score :: "string \<Rightarrow> string \<Rightarrow> real" where
  "keyword_overlap_score query fact_name =
     (let q_tokens = py_lower ` tokenize query;
          f_tokens = py_lower ` tokenize fact_name
      in if q_tokens = {} then 0
         else real (card (q_tokens \<inter> f_tokens)) / real (card q_tokens))"

text \<open>
  What the Python runtime and its libraries contribute to the functions below, as
  parameters: the embedding similarity (\<open>None\<close> where the call raises), the order in
  which a \<open>set\<close> of strings is iterated (the language leaves it open; the argument lists
  the elements in insertion order), and the conversions \<open>int(s)\<close> and \<open>float(s)\<close>
  (\<open>None\<close> where they raise \<open>ValueError\<close>).
\<close>

record runtime =
  rt_embedding :: "string \<Rightarrow> string \<Rightarrow> real option"
  rt_set_order :: "string list \<Rightarrow> string list"
  rt_int :: "string \<Rightarrow> int option"
  rt_float :: "string \<Rightarrow> real option"

text \<open>
  A fact as \<open>extract_facts\<close> builds it. The element \<open>raw\<close> is modelled by what
  \<open>_extract_end_date_year\<close> reads from it: its \<open>contextRef\<close> attribute and, for the
  document it belongs to, the \<open>context\<close> elements in document order, each with its \<open>id\<close>
  and the texts of its \<open>endDate\<close> descendants. Context ids are XML names, so the path
  built from an id is well formed.
\<close>

record xml_context =
  context_id :: "string option"
  end_dates :: "string option list"

record xml_element =
  contextRef :: "string option"
  roottree :: "xml_context list"

record extracted_fact =
  fact_name :: "string option"
  fact_tag :: "string option"
  fact_value :: "string option"
  fact_raw :: xml_element

text \<open>\<open>f.get("name") or f.get("tag")\<close>: the name unless it is missing or empty.\<close>

definition name_or_tag :: "extracted_fact \<Rightarrow> string option" where
  "name_or_tag f =
     (if fact_name f \<noteq> None \<and> fact_name f \<noteq> Some [] then fact_name f else fact_tag f)"

text \<open>One round of the scoring loop of \<open>resolve_to_fact\<close>: the score of a candidate.\<close>

definition candidate_score :: "runtime \<Rightarrow> string \<Rightarrow> string \<Rightarrow> real" where
  "candidate_score rt query_base name =
     (let query_cat = classify_concept query_base;
          q_low = py_lower query_base;
          name_base = strip_prefix name;
          fact_cat = classify_concept name_base;
          n_low = py_lower name_base;
          sim = (case rt_embedding rt query_base name_base of
                   Some s \<Rightarrow> s | None \<Rightarrow> 0);
          overlap = keyword_overlap_score query_base name_base;
          cat_score =
            (if query_cat = fact_cat \<and> query_cat \<noteq> ''Other'' then 15 / 100
             else if query_cat = ''Operating'' \<and> fact_cat = ''Tax'' then - (15 / 100)
             else if query_cat = ''Tax'' \<and> fact_cat = ''Operating'' then - (15 / 100)
             else 0);
          penalty =
            (if contains q_low ''operat'' \<and> contains n_low ''tax'' then 20 / 100 else 0)
            + (if contains q_low ''tax'' \<and> contains n_low ''operat'' then 20 / 100 else 0)
            + (if contains q_low ''revenue'' \<and> contains n_low ''net income''
               then 10 / 100 else 0)
            + (if contains q_low ''net income'' \<and> contains n_low ''revenue''
               then 10 / 100 else 0)
      in (60 / 100) * sim + (25 / 100) * overlap + cat_score - penalty)"

text \<open>
  The loop over the names: the first name of the highest score. \<open>best_score\<close> starts at
  minus infinity, the accumulator \<open>None\<close>.
\<close>

fun best_candidate ::
  "(string \<Rightarrow> real) \<Rightarrow> string list \<Rightarrow> (real \<times> string) option \<Rightarrow> (real \<times> string) option" where
  "best_candidate score [] acc = acc"
| "best_candidate score (name # names) acc =
     (case acc of
        None \<Rightarrow> best_candidate score names (Some (score name, name))
      | Some (best_score, best) \<Rightarrow>
          if score name > best_score then best_candidate score names (Some (score name, name))
          else best_candidate score names acc)"

definition resolve_to_fact :: "runtime \<Rightarrow> string \<Rightarrow> extracted_fact list \<Rightarrow> string option" where
  "resolve_to_fact rt query all_facts =
     (let query_base = strip_prefix (py_strip query);
          unique_names =
            remdups (map the (filter (\<lambda>n. n \<noteq> None \<and> n \<noteq> Some [])
                                (map name_or_tag all_facts)))
      in case best_candidate (candidate_score rt query_base)
                (rt_set_order rt unique_names) None of
           None \<Rightarrow> None
         | Some (best_score, best) \<Rightarrow> if best_score \<ge> 40 / 100 then Some best else None)"

section \<open>xbrl/fact\_extractor.py: values and series of a concept\<close>

text \<open>
  \<open>_extract_end_date_year(fact)\<close>: the year of the first \<open>endDate\<close> of the first context
  with the id the fact refers to; \<open>None\<close> when any of them is missing or the text before
  the first hyphen is not an integer.
\<close>

definition extract_end_date_year :: "runtime \<Rightarrow> extracted_fact \<Rightarrow> int option" where
  "extract_end_date_year rt f =
     (case contextRef (fact_raw f) of
        None \<Rightarrow> None
      | Some ctx \<Rightarrow>
          (case find (\<lambda>c. context_id c = Some ctx) (roottree (fact_raw f)) of
             None \<Rightarrow> None
           | Some context \<Rightarrow>
               (case end_dates context of
                  [] \<Rightarrow> None
                | end_text # others \<Rightarrow>
                    (case end_text of
                       None \<Rightarrow> None
                     | Some text \<Rightarrow> rt_int rt (takeWhile (\<lambda>c. c \<noteq> CHR ''-'') text)))))"

text \<open>\<open>float(f["value"])\<close> under \<open>try\<close>: \<open>None\<close> where it raises.\<close>

definition float_value :: "runtime \<Rightarrow> extracted_fact \<Rightarrow> real option" where
  "float_value rt f = (case fact_value f of None \<Rightarrow> None | Some s \<Rightarrow> rt_float rt s)"

text \<open>Stage 1: the facts whose name resolves to the canonical concept of the query.\<close>

definition alias_matches :: "runtime \<Rightarrow> string \<Rightarrow> extracted_fact list \<Rightarrow> extracted_fact list" where
  "alias_matches rt concept all_facts =
     filter (\<lambda>f. fact_name f \<noteq> None \<and> fact_name f \<noteq> Some []
                \<and> resolve (rt_embedding rt) (the (fact_name f))
                    = resolve (rt_embedding rt) concept)
       all_facts"

text \<open>Stage 2: the facts carrying the name that \<open>resolve_to_fact\<close> picks for the query.\<close>

definition semantic_matches ::
  "runtime \<Rightarrow> string \<Rightarrow> extracted_fact list \<Rightarrow> extracted_fact list" where
  "semantic_matches rt concept all_facts =
     (case resolve_to_fact rt concept all_facts of
        None \<Rightarrow> []
      | Some best_fact_name \<Rightarrow>
          if best_fact_name = [] then []
          else filter (\<lambda>f. name_or_tag f = Some best_fact_name) all_facts)"

text \<open>The facts with an end year, paired with it, in the order of the facts.\<close>

definition dated_facts :: "runtime \<Rightarrow> extracted_fact list \<Rightarrow> (int \<times> extracted_fact) list" where
  "dated_facts rt fs =
     map (\<lambda>f. (the (extract_end_date_year rt f), f))
       (filter (\<lambda>f. extract_end_date_year rt f \<noteq> None) fs)"

text \<open>The list \<open>matches\<close> of \<open>get_concept_value\<close>: stage 2 only when stage 1 finds nothing.\<close>

definition value_matches :: "runtime \<Rightarrow> string \<Rightarrow> extracted_fact list \<Rightarrow> extracted_fact list" where
  "value_matches rt concept all_facts =
     (if alias_matches rt concept all_facts \<noteq> [] then alias_matches rt concept all_facts
      else semantic_matches rt concept all_facts)"

text \<open>
  \<open>get_concept_value(concept, all_facts, year=None)\<close>. With a year, the last fact of
  exactly that year, else the first fact of the nearest year; the list \<open>dated\<close> is sorted
  in place, so the final default looks at the list as the year branch left it.
\<close>

definition get_concept_value ::
  "runtime \<Rightarrow> string \<Rightarrow> extracted_fact list \<Rightarrow> int option \<Rightarrow> real option" where
  "get_concept_value rt concept all_facts year =
     (let matches = value_matches rt concept all_facts in
      if matches = [] then None
      else
        (let dated = dated_facts rt matches;
             exact = (case year of
                        None \<Rightarrow> []
                      | Some yr \<Rightarrow> map snd (filter (\<lambda>(y, f). y = yr) dated));
             exact_value = (if exact \<noteq> [] then float_value rt (last exact) else None);
             by_distance = (case year of
                              None \<Rightarrow> dated
                            | Some yr \<Rightarrow> sort_key (\<lambda>(y, f). \<bar>y - yr\<bar>) dated);
             nearest_value = (if year \<noteq> None \<and> dated \<noteq> []
                              then float_value rt (snd (hd by_distance)) else None);
             by_year = sort_key fst by_distance;
             latest_value = (if dated \<noteq> [] then float_value rt (snd (last by_year)) else None)
         in if exact_value \<noteq> None then exact_value
            else if nearest_value \<noteq> None then nearest_value
            else latest_value))"




text \<open>
  A runtime for the examples: no embedding backend, sets iterated in insertion order,
  and \<open>int\<close> and \<open>float\<close> restricted to plain strings of decimal digits.
\<close>

definition digit_value :: "char \<Rightarrow> nat option" where
  "digit_value c = map_of (zip ''0123456789'' [0, 1, 2, 3, 4, 5, 6, 7, 8, 9]) c"

definition decimal :: "string \<Rightarrow> nat option" where
  "decimal s =
     (if s = [] \<or> (\<exists>c \<in> set s. digit_value c = None) then None
      else Some (foldl (\<lambda>n c. 10 * n + the (digit_value c)) 0 s))"

definition plain_runtime :: runtime where
  "plain_runtime =
     \<lparr> rt_embedding = no_embedding,
       rt_set_order = (\<lambda>names. names),
       rt_int = (\<lambda>s. map_option int (decimal s)),
       rt_float = (\<lambda>s. map_option real (decimal s)) \<rparr>"

text \<open>A filing with one context per year and facts named \<open>Revenues\<close>.\<close>

definition year_contexts :: "xml_context list" where
  "year_contexts =
     [\<lparr> context_id = Some ''c2020'', end_dates = [Some ''2020-12-31''] \<rparr>,
      \<lparr> context_id = Some ''c2021'', end_dates = [Some ''2021-12-31''] \<rparr>,
      \<lparr> context_id = Some ''c2022'', end_dates = [Some ''2022-12-31''] \<rparr>]"

definition revenues_fact :: "string \<Rightarrow> string \<Rightarrow> extracted_fact" where
  "revenues_fact ctx text =
     \<lparr> fact_name = Some ''Revenues'', fact_tag = Some ''us-gaap:Revenues'',
       fact_value = Some text,
       fact_raw = \<lparr> contextRef = Some ctx, roottree = year_contexts \<rparr> \<rparr>"


definition gap_facts :: "extracted_fact list" where
  "gap_facts = [revenues_fact ''c2020'' ''5'', revenues_fact ''c2022'' ''9'']"

definition unparsable_facts :: "extracted_fact list" where
  "unparsable_facts =
     [revenues_fact ''c2020'' ''n/a'', revenues_fact ''c2021'' ''5'',
      revenues_fact ''c2022'' ''n/a'']"

section \<open>atlas/atlas.py: the series of a concept\<close>




section \<open>xbrl/fact\_index.py: facts by tag and period\<close>

text \<open>
  A \<open>datetime\<close> without time zone: year, month, day, hour, minute, second and
  microsecond, ordered lexicographically as the library orders them. Every \<open>datetime\<close> is
  true in a condition, so \<open>if date\<close> tests for \<open>None\<close>.
\<close>

type_synonym datetime = "int \<times> int \<times> int \<times> int \<times> int \<times> int \<times> int"

definition datetime_min :: datetime where
  "datetime_min = (1, 1, 1, 0, 0, 0, 0)"

definition dt_year :: "datetime \<Rightarrow> int" where
  "dt_year d = fst d"

definition dt_month :: "datetime \<Rightarrow> int" where
  "dt_month d = fst (snd d)"

text \<open>
  The library functions that the module calls, as parameters: \<open>datetime.fromisoformat\<close>
  and \<open>datetime.strptime\<close> (\<open>None\<close> where they raise \<open>ValueError\<close>), \<open>(a - b).days\<close>,
  \<open>datetime.timestamp\<close> and \<open>int\<close> on a string.
\<close>

record library =
  lib_fromisoformat :: "string \<Rightarrow> datetime option"
  lib_strptime :: "string \<Rightarrow> string \<Rightarrow> datetime option"
  lib_days :: "datetime \<Rightarrow> datetime \<Rightarrow> int"
  lib_timestamp :: "datetime \<Rightarrow> real"
  lib_int :: "string \<Rightarrow> int option"

text \<open>
  A context and a fact are dictionaries; a key is either absent (or \<open>None\<close>) or holds a
  string, \<open>numeric_value\<close> a number. \<open>contexts\<close> maps context ids to contexts.
\<close>

record period_context =
  period_type :: "string option"
  period_start :: "string option"
  period_end :: "string option"
  period_instant :: "string option"

record indexed_fact =
  ix_tag :: "string option"
  ix_contextRef :: "string option"
  ix_context :: "string option"
  ix_numeric_value :: "real option"

type_synonym context_map = "(string \<times> period_context) list"

datatype lookup_error = TypeError | AttributeError

datatype tag_arg = NoTags | OneTag string | ManyTags "string list"

definition coerce_tags :: "tag_arg \<Rightarrow> string list" where
  "coerce_tags tag_or_tags =
     (case tag_or_tags of NoTags \<Rightarrow> [] | OneTag t \<Rightarrow> [t] | ManyTags ts \<Rightarrow> ts)"

text \<open>\<open>_parse_date\<close>. The slices \<open>clean[:len(fmt)]\<close> take as many characters as the format
  string has: eight and six.\<close>

definition parse_date :: "library \<Rightarrow> string option \<Rightarrow> datetime option" where
  "parse_date lib v =
     (case v of
        None \<Rightarrow> None
      | Some s \<Rightarrow>
          if s = [] then None
          else
            (let clean = py_strip (filter (\<lambda>c. c \<noteq> CHR ''Z'') s) in
             if clean = [] then None
             else
               (case lib_fromisoformat lib clean of
                  Some d \<Rightarrow> Some d
                | None \<Rightarrow>
                    (case lib_strptime lib (take (length ''%Y-%m-%d'') clean) ''%Y-%m-%d'' of
                       Some d \<Rightarrow> Some d
                     | None \<Rightarrow>
                         lib_strptime lib (take (length ''%Y%m%d'') clean) ''%Y%m%d''))))"

definition period_type_lower :: "period_context \<Rightarrow> string" where
  "period_type_lower ctx = py_lower (case period_type ctx of None \<Rightarrow> [] | Some t \<Rightarrow> t)"

text \<open>\<open>_context_end_date\<close> of a dictionary; the empty dictionary has no key, and the result
  for it is \<open>None\<close> on either path.\<close>

definition context_end_date :: "library \<Rightarrow> period_context \<Rightarrow> datetime option" where
  "context_end_date lib ctx =
     (if period_type_lower ctx = ''instant'' then parse_date lib (period_instant ctx)
      else
        (case parse_date lib (period_end ctx) of
           Some d \<Rightarrow> Some d
         | None \<Rightarrow> parse_date lib (period_instant ctx)))"

text \<open>\<open>_context_sort_date\<close> of a dictionary. For \<open>None\<close> the function raises
  \<open>AttributeError\<close> at \<open>context.get\<close>; the callers below account for that.\<close>

definition context_sort_date :: "library \<Rightarrow> period_context \<Rightarrow> datetime option" where
  "context_sort_date lib ctx =
     (case context_end_date lib ctx of
        Some d \<Rightarrow> Some d
      | None \<Rightarrow> parse_date lib (period_start ctx))"

definition context_duration_days :: "library \<Rightarrow> period_context \<Rightarrow> int option" where
  "context_duration_days lib ctx =
     (case (parse_date lib (period_start ctx), parse_date lib (period_end ctx)) of
        (Some start, Some end_date) \<Rightarrow> Some (lib_days lib end_date start)
      | _ \<Rightarrow> None)"

text \<open>The key of the sort in \<open>_sort_context_ids\<close>, for an id of the mapping.\<close>

definition sort_date_key :: "library \<Rightarrow> context_map \<Rightarrow> string \<Rightarrow> datetime" where
  "sort_date_key lib contexts cid =
     (case context_sort_date lib (the (dict_get contexts cid)) of
        Some d \<Rightarrow> d
      | None \<Rightarrow> datetime_min)"

text \<open>
  \<open>_sort_context_ids\<close>: \<open>sorted(..., reverse=True)\<close> is the stable sort of the reversed
  list, reversed. An id that is not in the mapping makes the key function raise.
\<close>

definition sort_context_ids ::
  "library \<Rightarrow> string list \<Rightarrow> context_map \<Rightarrow> lookup_error + string list" where
  "sort_context_ids lib context_ids contexts =
     (if \<exists>cid \<in> set context_ids. dict_get contexts cid = None then Inl AttributeError
      else Inr (rev (sort_key (sort_date_key lib contexts) (rev context_ids))))"

definition preferred_period_type :: "string option \<Rightarrow> string option" where
  "preferred_period_type period_alias =
     (case period_alias of
        None \<Rightarrow> None
      | Some pa \<Rightarrow>
          if pa = [] then None
          else
            (let a = py_upper pa in
             if startswith a ''FY'' \<or> a \<in> set [''MRQ'', ''Q1'', ''Q2'', ''Q3'', ''Q4'']
             then Some ''duration'' else None))"

definition get_facts_by_tag :: "indexed_fact list \<Rightarrow> tag_arg \<Rightarrow> indexed_fact list" where
  "get_facts_by_tag facts tag_or_tags =
     (let tags = set (map py_lower (coerce_tags tag_or_tags)) in
      if tags = {} then []
      else filter (\<lambda>f. py_lower (case ix_tag f of None \<Rightarrow> [] | Some t \<Rightarrow> t) \<in> tags) facts)"

text \<open>The branch \<open>LATEST\<close> of \<open>resolve_period\<close>: the ids of the greatest sort date, in the
  order of the mapping.\<close>

definition dated_contexts :: "library \<Rightarrow> context_map \<Rightarrow> (string \<times> datetime) list" where
  "dated_contexts lib contexts =
     map (\<lambda>(cid, ctx). (cid, the (context_sort_date lib ctx)))
       (filter (\<lambda>(cid, ctx). context_sort_date lib ctx \<noteq> None) contexts)"

definition latest_contexts :: "library \<Rightarrow> context_map \<Rightarrow> string list" where
  "latest_contexts lib contexts =
     (let dated = dated_contexts lib contexts in
      if dated = [] then []
      else
        (let max_date = foldl max (snd (hd dated)) (map snd (tl dated))
         in map fst (filter (\<lambda>(cid, date). date = max_date) dated)))"

text \<open>
  The branch \<open>MRQ\<close>. \<open>durations.sort(reverse=True)\<close> compares the tuples
  \<open>(date, length, cid)\<close>; two tuples of the same date whose lengths are \<open>None\<close> and a
  number are ordered by no other comparison, so the sort compares them and raises
  \<open>TypeError\<close>. The ids are pairwise distinct, so no two tuples are equal.
\<close>

definition duration_entries ::
  "library \<Rightarrow> context_map \<Rightarrow> (datetime \<times> int option \<times> string) list" where
  "duration_entries lib contexts =
     map (\<lambda>(cid, ctx). (the (context_sort_date lib ctx), context_duration_days lib ctx, cid))
       (filter (\<lambda>(cid, ctx). period_type_lower ctx = ''duration''
                  \<and> context_sort_date lib ctx \<noteq> None) contexts)"

definition incomparable :: "(datetime \<times> int option \<times> string) list \<Rightarrow> bool" where
  "incomparable durations =
     (\<exists>a \<in> set durations. \<exists>b \<in> set durations.
        fst a = fst b \<and> fst (snd a) = None \<and> fst (snd b) \<noteq> None)"

definition quarter_like :: "int option \<Rightarrow> bool" where
  "quarter_like len = (case len of None \<Rightarrow> False | Some n \<Rightarrow> 70 \<le> n \<and> n \<le> 120)"

definition most_recent_quarter ::
  "library \<Rightarrow> context_map \<Rightarrow> lookup_error + string list" where
  "most_recent_quarter lib contexts =
     (let durations = duration_entries lib contexts in
      if incomparable durations then Inl TypeError
      else
        (let sorted_durations = rev (sort_key (\<lambda>t. t) (rev durations));
             quarters = map (\<lambda>(date, len, cid). cid)
                          (filter (\<lambda>(date, len, cid). quarter_like len) sorted_durations);
             targets = (if quarters \<noteq> [] then quarters
                        else map (\<lambda>(date, len, cid). cid) sorted_durations)
         in sort_context_ids lib targets contexts))"

text \<open>The branches \<open>Q1\<close> to \<open>Q4\<close> and \<open>FYnnnn\<close>: the duration contexts that end in the
  month, or in the year.\<close>

definition quarter_months :: "(string \<times> int) list" where
  "quarter_months = [(''Q1'', 3), (''Q2'', 6), (''Q3'', 9), (''Q4'', 12)]"

definition duration_matches ::
  "library \<Rightarrow> context_map \<Rightarrow> (datetime \<Rightarrow> bool) \<Rightarrow> string list" where
  "duration_matches lib contexts wanted =
     map fst
       (filter (\<lambda>(cid, ctx). period_type_lower ctx = ''duration''
                  \<and> (case context_end_date lib ctx of
                        None \<Rightarrow> False
                      | Some end_date \<Rightarrow> wanted end_date)) contexts)"

definition resolve_period ::
  "library \<Rightarrow> context_map \<Rightarrow> string option \<Rightarrow> lookup_error + string list" where
  "resolve_period lib contexts period_alias =
     (case period_alias of
        None \<Rightarrow> Inr []
      | Some pa \<Rightarrow>
          if contexts = [] \<or> pa = [] then Inr []
          else if py_strip pa = [] then Inr []
          else if py_strip pa \<in> set (dict_keys contexts) then Inr [py_strip pa]
          else if py_upper (py_strip pa) = ''LATEST'' then Inr (latest_contexts lib contexts)
          else if py_upper (py_strip pa) = ''MRQ'' then most_recent_quarter lib contexts
          else
            (case dict_get quarter_months (py_upper (py_strip pa)) of
               Some target_month \<Rightarrow>
                 sort_context_ids lib
                   (duration_matches lib contexts (\<lambda>e. dt_month e = target_month)) contexts
             | None \<Rightarrow>
                 if startswith (py_upper (py_strip pa)) ''FY''
                 then
                   (case lib_int lib (drop 2 (py_upper (py_strip pa))) of
                      None \<Rightarrow> Inr []
                    | Some year \<Rightarrow>
                        if year = 0 then Inr []
                        else sort_context_ids lib
                               (duration_matches lib contexts (\<lambda>e. dt_year e = year)) contexts)
                 else Inr []))"

text \<open>
  \<open>_fact_sort_key\<close>. The third component \<open>-date.timestamp()\<close> or \<open>float("inf")\<close> is a
  pair, so that the infinite rank is above every finite one. A context id that is not
  in the mapping is treated as the empty context.
\<close>

definition empty_context :: period_context where
  "empty_context =
     \<lparr> period_type = None, period_start = None, period_end = None, period_instant = None \<rparr>"

definition fact_context_ref :: "indexed_fact \<Rightarrow> string" where
  "fact_context_ref f =
     (case ix_contextRef f of
        Some c \<Rightarrow> if c = [] then (case ix_context f of None \<Rightarrow> [] | Some x \<Rightarrow> x) else c
      | None \<Rightarrow> (case ix_context f of None \<Rightarrow> [] | Some x \<Rightarrow> x))"

definition fact_sort_key ::
  "library \<Rightarrow> indexed_fact \<Rightarrow> context_map \<Rightarrow> string option \<Rightarrow> nat \<times> nat \<times> nat \<times> real" where
  "fact_sort_key lib f contexts preferred =
     (let ctx = dict_get contexts (fact_context_ref f);
          period_rank =
            (case preferred of
               None \<Rightarrow> 0
             | Some p \<Rightarrow>
                 if p = [] then 0
                 else (case ctx of
                         None \<Rightarrow> 1
                       | Some c \<Rightarrow> if period_type_lower c = p then 0 else 1));
          date = context_sort_date lib (case ctx of None \<Rightarrow> empty_context | Some c \<Rightarrow> c);
          date_rank = (case date of
                         Some d \<Rightarrow> (0, - lib_timestamp lib d)
                       | None \<Rightarrow> (1, 0))
      in (if ix_numeric_value f \<noteq> None then 0 else 1, period_rank, date_rank))"

text \<open>\<open>fact.get("contextRef") in allowed_contexts or fact.get("context") in
  allowed_contexts\<close>.\<close>

definition refers_to :: "indexed_fact \<Rightarrow> string list \<Rightarrow> bool" where
  "refers_to f allowed_contexts =
     ((case ix_contextRef f of None \<Rightarrow> False | Some c \<Rightarrow> c \<in> set allowed_contexts)
      \<or> (case ix_context f of None \<Rightarrow> False | Some c \<Rightarrow> c \<in> set allowed_contexts))"

text \<open>\<open>FactIndex.get_fact\<close>, with the facts and the contexts of the index as arguments.\<close>

definition get_fact ::
  "library \<Rightarrow> indexed_fact list \<Rightarrow> context_map \<Rightarrow> tag_arg \<Rightarrow> string option
     \<Rightarrow> lookup_error + indexed_fact option" where
  "get_fact lib facts contexts tag_or_tags period =
     (let candidates = get_facts_by_tag facts tag_or_tags in
      if candidates = [] then Inr None
      else
        (case (if period = None \<or> period = Some [] then Inr []
               else resolve_period lib contexts period) of
           Inl e \<Rightarrow> Inl e
         | Inr allowed_contexts \<Rightarrow>
             (let filtered = (if allowed_contexts \<noteq> []
                              then filter (\<lambda>f. refers_to f allowed_contexts) candidates
                              else candidates)
              in if filtered = [] then Inr None
                 else Inr (Some (hd (sort_key
                        (\<lambda>f. fact_sort_key lib f contexts (preferred_period_type period))
                        filtered))))))"

text \<open>
  The library on the strings of the examples: ISO dates of the form \<open>YYYY-MM-DD\<close>, which
  \<open>fromisoformat\<close> reads as midnight of that day; \<open>int\<close> on strings of decimal digits; day
  differences and timestamps (in UTC) by the count of days since 1970-01-01 in the
  Gregorian calendar.
\<close>

definition days_in_month :: "int \<Rightarrow> int \<Rightarrow> int" where
  "days_in_month y m =
     (if m = 2 then (if y mod 4 = 0 \<and> (y mod 100 \<noteq> 0 \<or> y mod 400 = 0) then 29 else 28)
      else if m \<in> set [4, 6, 9, 11] then 30 else 31)"

definition iso_date :: "string \<Rightarrow> datetime option" where
  "iso_date s =
     (if length s = 10 \<and> s ! 4 = CHR ''-'' \<and> s ! 7 = CHR ''-''
      then (case (decimal (take 4 s), decimal (take 2 (drop 5 s)), decimal (drop 8 s)) of
              (Some y, Some m, Some d) \<Rightarrow>
                 if 1 \<le> y \<and> 1 \<le> m \<and> m \<le> 12 \<and> 1 \<le> d
                    \<and> int d \<le> days_in_month (int y) (int m)
                 then Some (int y, int m, int d, 0, 0, 0, 0) else None
            | _ \<Rightarrow> None)
      else None)"

definition days_from_civil :: "int \<Rightarrow> int \<Rightarrow> int \<Rightarrow> int" where
  "days_from_civil y m d =
     (let y' = (if m \<le> 2 then y - 1 else y);
          era = y' div 400;
          yoe = y' - era * 400;
          doy = (153 * (if m > 2 then m - 3 else m + 9) + 2) div 5 + d - 1;
          doe = yoe * 365 + yoe div 4 - yoe div 100 + doy
      in era * 146097 + doe - 719468)"

definition microseconds :: "datetime \<Rightarrow> int" where
  "microseconds t =
     (case t of (y, m, d, h, mi, s, us) \<Rightarrow>
        (days_from_civil y m d * 86400 + (h * 60 + mi) * 60 + s) * 1000000 + us)"

definition example_library :: library where
  "example_library =
     \<lparr> lib_fromisoformat = iso_date,
       lib_strptime = (\<lambda>s fmt. None),
       lib_days = (\<lambda>a b. (microseconds a - microseconds b) div 86400000000),
       lib_timestamp = (\<lambda>t. real_of_int (microseconds t) / 1000000),
       lib_int = (\<lambda>s. map_option int (decimal s)) \<rparr>"

definition duration_context :: "string \<Rightarrow> string \<Rightarrow> period_context" where
  "duration_context start_date end_date =
     \<lparr> period_type = Some ''duration'', period_start = Some start_date,
       period_end = Some end_date, period_instant = None \<rparr>"

text \<open>The fiscal years 2020 and 2021, and a fact of the year 2021.\<close>

definition fiscal_contexts :: context_map where
  "fiscal_contexts =
     [(''fy2020'', duration_context ''2020-01-01'' ''2020-12-31''),
      (''fy2021'', duration_context ''2021-01-01'' ''2021-12-31'')]"

definition revenue_2021 :: indexed_fact where
  "revenue_2021 =
     \<lparr> ix_tag = Some ''us-gaap:Revenues'', ix_contextRef = Some ''fy2021'',
       ix_context = None, ix_numeric_value = Some 100 \<rparr>"

text \<open>Three periods that end on the same day: the year, the second half and the last
  three quarters, in the order of the filing.\<close>

definition same_end_contexts :: context_map where
  "same_end_contexts =
     [(''year'', duration_context ''2020-01-01'' ''2020-12-31''),
      (''half'', duration_context ''2020-07-01'' ''2020-12-31''),
      (''nine'', duration_context ''2020-04-01'' ''2020-12-31'')]"

section \<open>Properties of the cost-structure engine\<close>

text \<open>
  C9. In a period \<open>p\<close> for which no bucket has an elasticity (as in the first period), with
  costs COGS = 600, R&D = 100, Sales & Marketing = 150 and G&A = 50, the split applies the
  default shares 1, 0, 1/2, 0 and returns total cost 900, variable cost 675, fixed cost 225
  and aggregate variable share 3/4 for \<open>p\<close>.
\<close>

theorem first_period_default_split:
  assumes "\<forall>b \<in> set (dict_keys (scenario_buckets p)). elasticity_at el b p = None"
  shows "compute_fixed_variable_split (scenario_buckets p) el vs =
           (\<lparr> variable_cost = [(p, 675)], fixed_cost = [(p, 225)],
              variable_share = [(p, Some (3 / 4))], total = [(p, 900)] \<rparr>,
            [(''COGS'', [(p, 1)]), (''RnD'', [(p, 0)]),
             (''SalesMarketing'', [(p, 1 / 2)]), (''GandA'', [(p, 0)])])"
proof -
  from assms have e: "elasticity_at el ''COGS'' p = None" "elasticity_at el ''RnD'' p = None"
    "elasticity_at el ''SalesMarketing'' p = None" "elasticity_at el ''GandA'' p = None"
    by (simp_all add: scenario_buckets_def dict_keys_def)
  have s: "bucket_share el ''COGS'' p = 1" "bucket_share el ''RnD'' p = 0"
    "bucket_share el ''SalesMarketing'' p = 1 / 2" "bucket_share el ''GandA'' p = 0"
    by (simp_all add: bucket_share_def e default_shares_def dict_get_def)
  show ?thesis
    by (simp add: compute_fixed_variable_split_def scenario_buckets_def dict_keys_def
        dict_get_def s safe_div_def)
qed

theorem first_period_default_split_witness:
  "compute_fixed_variable_split (scenario_buckets 2023)
       [(''COGS'', []), (''RnD'', []), (''SalesMarketing'', []), (''GandA'', [])]
       [(2023, 1000)] =
     (\<lparr> variable_cost = [(2023, 675)], fixed_cost = [(2023, 225)],
        variable_share = [(2023, Some (3 / 4))], total = [(2023, 900)] \<rparr>,
      [(''COGS'', [(2023, 1)]), (''RnD'', [(2023, 0)]),
       (''SalesMarketing'', [(2023, 1 / 2)]), (''GandA'', [(2023, 0)])])"
proof -
  have h: "\<forall>b \<in> set (dict_keys (scenario_buckets 2023)).
       elasticity_at [(''COGS'', []), (''RnD'', []), (''SalesMarketing'', []), (''GandA'', [])]
         b 2023 = None"
    by (simp add: scenario_buckets_def dict_keys_def elasticity_at_def dict_get_def)
  from first_period_default_split [OF h, of "[(2023, 1000)]"] show ?thesis .
qed

section \<open>Properties of the concept resolver\<close>


lemma best_match_below:
  "bs < t \<Longrightarrow> (\<And>a c. (a, c) \<in> set tbl \<Longrightarrow> score a < t)
     \<Longrightarrow> fst (best_match score tbl (bs, b)) < t"
  by (induction score tbl "(bs, b)" arbitrary: bs b rule: best_match.induct) auto


lemma best_embedding_raises:
  "tbl \<noteq> [] \<Longrightarrow> (\<And>a. score a = None) \<Longrightarrow> best_embedding score tbl acc = None"
  by (cases tbl; cases acc) auto

lemma is_space_lower_char: "is_space (lower_char c) = is_space c"
  by (auto simp: lower_char_def is_space_def split: if_splits)

lemma split_acc_no_space:
  "(\<And>c. c \<in> set w \<Longrightarrow> \<not> is_space c)
     \<Longrightarrow> split_acc u w = (if u @ w = [] then [] else [u @ w])"
  by (induction w arbitrary: u) auto

lemma py_split_word:
  "w \<noteq> [] \<Longrightarrow> (\<And>c. c \<in> set w \<Longrightarrow> \<not> is_space c) \<Longrightarrow> py_split w = [w]"
  by (simp add: py_split_def split_acc_no_space)

lemma py_split_lower_word:
  assumes "w \<noteq> []" "\<And>c. c \<in> set w \<Longrightarrow> \<not> is_space c"
  shows "py_split (py_lower w) = [py_lower w]"
  using assms by (intro py_split_word) (auto simp: py_lower_def is_space_lower_char)


lemma simple_similarity_match:
  assumes w: "alias \<noteq> []" "\<And>c. c \<in> set alias \<Longrightarrow> \<not> is_space c"
    and s: "simple_similarity base alias \<ge> 6 / 10"
  shows "py_split (py_lower base) = [py_lower alias]"
proof (cases "py_lower base = py_lower alias")
  case True
  then show ?thesis using py_split_lower_word [OF w] by simp
next
  case False
  let ?A = "py_split (py_lower base)"
  let ?n = "card (set ?A \<inter> {py_lower alias})"
  from False s have r: "real ?n / real (max (length ?A) 1) \<ge> 6 / 10"
    by (simp add: simple_similarity_def py_split_lower_word [OF w])
  have n1: "?n \<le> 1"
    by (metis card_mono card_1_singleton_iff finite.emptyI finite.insertI inf_le2 card.empty card.insert empty_iff One_nat_def)
  have "?n \<noteq> 0"
  proof
    assume "?n = 0"
    with r show False by simp
  qed
  with n1 have n: "?n = 1" by simp
  have mem: "py_lower alias \<in> set ?A"
  proof (rule ccontr)
    assume "py_lower alias \<notin> set ?A"
    then have "set ?A \<inter> {py_lower alias} = {}" by simp
    with n show False by simp
  qed
  then have len: "length ?A \<ge> 1" by (cases ?A) auto
  then have m: "max (length ?A) 1 = length ?A" by simp
  from len have pos: "0 < real (length ?A)" by linarith
  from r n m have "6 / 10 \<le> 1 / real (length ?A)" by simp
  with pos have "6 / 10 * real (length ?A) \<le> 1"
    by (simp only: pos_le_divide_eq)
  then have "length ?A \<le> 1" by linarith
  with mem show ?thesis by (cases ?A) auto
qed


text \<open>The aliases in table order, and their lower-case forms.\<close>

lemma alias_list:
  "dict_keys CANONICAL_LOOKUP =
     [''RevenueFromContractWithCustomer'', ''SalesRevenueNet'', ''OperatingRevenue'',
      ''TotalRevenue'', ''Revenues'', ''us-gaap:RevenueFromContractWithCustomer'',
      ''ifrs-full:Revenue'', ''CostOfRevenue'', ''CostOfGoodsSold'',
      ''CostOfGoodsAndServicesSold'', ''CostOfProductsSold'', ''COGS'',
      ''us-gaap:CostOfRevenue'', ''us-gaap:CostOfGoodsSold'', ''OperatingIncome'',
      ''OperatingProfit'', ''IncomeFromOperations'', ''OperatingLoss'',
      ''us-gaap:OperatingIncomeLoss'', ''EBIT'', ''EarningsBeforeInterestAndTaxes'',
      ''EarningsBeforeInterestTax'', ''EarningsBeforeInterestAndTax'', ''OperatingEarnings'',
      ''OperatingEarningsBeforeInterestAndTaxes'', ''IncomeBeforeInterestAndTaxes'',
      ''IncomeBeforeInterestTax'',
      ''us-gaap:IncomeLossFromContinuingOperationsBeforeIncomeTaxesExtraordinaryItemsNoncontrollingInterest'',
      ''us-gaap:IncomeLossFromContinuingOperationsBeforeIncomeTaxes'', ''NetIncome'',
      ''NetIncomeLoss'', ''ProfitLoss'', ''NetEarnings'', ''us-gaap:NetIncomeLoss'',
      ''ifrs-full:ProfitLoss'', ''ResearchAndDevelopmentExpense'',
      ''ResearchAndDevelopment'', ''RDExpense'', ''us-gaap:ResearchAndDevelopmentExpense'',
      ''SellingAndMarketingExpense'', ''MarketingExpense'', ''SalesAndMarketing'',
      ''us-gaap:SellingAndMarketingExpense'', ''SellingGeneralAndAdministrative'',
      ''GeneralAndAdministrative'', ''SG&A'',
      ''us-gaap:SellingGeneralAndAdministrativeExpense'', ''PropertyPlantAndEquipmentNet'',
      ''PropertyPlantEquipment'', ''FixedAssetsNet'',
      ''us-gaap:PropertyPlantAndEquipmentNet'', ''Goodwill'', ''us-gaap:Goodwill'',
      ''ifrs-full:Goodwill'', ''IntangibleAssetsNetExcludingGoodwill'',
      ''IntangibleAssetsNet'', ''IntangibleAssets'',
      ''us-gaap:IntangibleAssetsNetExcludingGoodwill'', ''CashAndCashEquivalents'',
      ''CashCashEquivalentsAndShortTermInvestments'', ''CashAndShortTermInvestments'',
      ''us-gaap:CashAndCashEquivalentsAtCarryingValue'',
      ''WeightedAverageNumberOfSharesOutstandingBasic'',
      ''WeightedAverageSharesOutstanding'', ''CommonStockSharesOutstanding'']"
  by code_simp

lemma lower_aliases:
  "map py_lower (dict_keys CANONICAL_LOOKUP) =
     [''revenuefromcontractwithcustomer'', ''salesrevenuenet'', ''operatingrevenue'',
      ''totalrevenue'', ''revenues'', ''us-gaap:revenuefromcontractwithcustomer'',
      ''ifrs-full:revenue'', ''costofrevenue'', ''costofgoodssold'',
      ''costofgoodsandservicessold'', ''costofproductssold'', ''cogs'',
      ''us-gaap:costofrevenue'', ''us-gaap:costofgoodssold'', ''operatingincome'',
      ''operatingprofit'', ''incomefromoperations'', ''operatingloss'',
      ''us-gaap:operatingincomeloss'', ''ebit'', ''earningsbeforeinterestandtaxes'',
      ''earningsbeforeinteresttax'', ''earningsbeforeinterestandtax'', ''operatingearnings'',
      ''operatingearningsbeforeinterestandtaxes'', ''incomebeforeinterestandtaxes'',
      ''incomebeforeinteresttax'',
      ''us-gaap:incomelossfromcontinuingoperationsbeforeincometaxesextraordinaryitemsnoncontrollinginterest'',
      ''us-gaap:incomelossfromcontinuingoperationsbeforeincometaxes'', ''netincome'',
      ''netincomeloss'', ''profitloss'', ''netearnings'', ''us-gaap:netincomeloss'',
      ''ifrs-full:profitloss'', ''researchanddevelopmentexpense'',
      ''researchanddevelopment'', ''rdexpense'', ''us-gaap:researchanddevelopmentexpense'',
      ''sellingandmarketingexpense'', ''marketingexpense'', ''salesandmarketing'',
      ''us-gaap:sellingandmarketingexpense'', ''sellinggeneralandadministrative'',
      ''generalandadministrative'', ''sg&a'',
      ''us-gaap:sellinggeneralandadministrativeexpense'', ''propertyplantandequipmentnet'',
      ''propertyplantequipment'', ''fixedassetsnet'',
      ''us-gaap:propertyplantandequipmentnet'', ''goodwill'', ''us-gaap:goodwill'',
      ''ifrs-full:goodwill'', ''intangibleassetsnetexcludinggoodwill'',
      ''intangibleassetsnet'', ''intangibleassets'',
      ''us-gaap:intangibleassetsnetexcludinggoodwill'', ''cashandcashequivalents'',
      ''cashcashequivalentsandshortterminvestments'', ''cashandshortterminvestments'',
      ''us-gaap:cashandcashequivalentsatcarryingvalue'',
      ''weightedaveragenumberofsharesoutstandingbasic'',
      ''weightedaveragesharesoutstanding'', ''commonstocksharesoutstanding'']"
  by code_simp

lemma alias_words:
  "\<forall>alias \<in> set (dict_keys CANONICAL_LOOKUP).
     alias \<noteq> [] \<and> (\<forall>c \<in> set alias. \<not> is_space c)"
  by code_simp


lemma lookup_nonempty: "CANONICAL_LOOKUP \<noteq> []"
  by (simp add: CANONICAL_LOOKUP_def CANONICAL_CLUSTERS_def)

text \<open>The fallback of \<open>resolve\<close>, for use below and in the later sections.\<close>

lemma resolve_unmatched:
  assumes emb: "\<And>a b. embedding_similarity a b = None"
    and raw: "py_strip x \<notin> set (dict_keys CANONICAL_LOOKUP)"
    and fuzzy: "\<And>alias. alias \<in> set (dict_keys CANONICAL_LOOKUP) \<Longrightarrow>
        py_split (py_lower (strip_prefix (py_strip x))) \<noteq> [py_lower alias]"
  shows "resolve embedding_similarity x = strip_prefix (py_strip x)"
proof -
  let ?base = "strip_prefix (py_strip x)"
  have sim: "simple_similarity ?base a < 6 / 10" if "(a, c) \<in> set CANONICAL_LOOKUP" for a c
  proof (rule ccontr)
    assume "\<not> simple_similarity ?base a < 6 / 10"
    then have ge: "simple_similarity ?base a \<ge> 6 / 10" by simp
    from that have k: "a \<in> set (dict_keys CANONICAL_LOOKUP)"
      by (force simp: dict_keys_def)
    with alias_words have "a \<noteq> []" "\<And>ch. ch \<in> set a \<Longrightarrow> \<not> is_space ch" by auto
    from simple_similarity_match [OF this ge] fuzzy [OF k] show False by simp
  qed
  have "fst (best_match (simple_similarity ?base) CANONICAL_LOOKUP (0, None)) < 6 / 10"
    by (rule best_match_below) (simp, rule sim)
  then obtain bs b where bm: "best_match (simple_similarity ?base) CANONICAL_LOOKUP (0, None) = (bs, b)"
    and bs: "bs < 6 / 10"
    by (cases "best_match (simple_similarity ?base) CANONICAL_LOOKUP (0, None)") auto
  have be: "best_embedding (embedding_similarity ?base) CANONICAL_LOOKUP (0, None) = None"
    by (rule best_embedding_raises [OF lookup_nonempty]) (rule emb)
  from raw have l1: "dict_get CANONICAL_LOOKUP (py_strip x) = None"
    by (simp add: dict_get_def dict_keys_def map_of_eq_None_iff)
  have l2: "dict_get CANONICAL_LOOKUP ?base = None"
  proof (rule ccontr)
    assume "dict_get CANONICAL_LOOKUP ?base \<noteq> None"
    then have k: "?base \<in> set (dict_keys CANONICAL_LOOKUP)"
      by (simp add: dict_get_def dict_keys_def map_of_eq_None_iff)
    with alias_words have "?base \<noteq> []" "\<And>ch. ch \<in> set ?base \<Longrightarrow> \<not> is_space ch" by auto
    from py_split_lower_word [OF this] fuzzy [OF k] show False by simp
  qed
  show ?thesis
    using bs by (simp add: resolve_def Let_def l1 l2 bm be)
qed




section \<open>Properties of the unit-economics inputs\<close>

lemma dict_get_dict_set:
  "dict_get (dict_set d k v) k' = (if k' = k then Some v else dict_get d k')"
  by (induction d) (auto simp: dict_get_def)

lemma dict_get_if:
  "dict_get (if c then a else b) k = (if c then dict_get a k else dict_get b k)"
  by simp

lemma dict_get_fill_additive:
  "k \<notin> set ks \<Longrightarrow> dict_get (fill_additive ks d) k = dict_get d k"
  by (induction ks d rule: fill_additive.induct)
     (auto simp: dict_get_dict_set split: option.splits)

lemma pnl_tax_rate:
  "dict_get (pnl_inputs emb atlas_get) ''TaxRate'' =
     (let tax_provision = atlas_get (resolve emb ''IncomeTaxExpenseBenefit'') None;
          pre_tax = atlas_get (resolve emb
            ''IncomeLossFromContinuingOperationsBeforeIncomeTaxesExtraordinaryItemsNoncontrollingInterest'')
            None
      in Some (Some (if truthy tax_provision \<and> truthy pre_tax \<and> the pre_tax > 0
                     then max 0 (min (the tax_provision / the pre_tax) (1 / 2))
                     else 21 / 100)))"
  by (simp add: pnl_inputs_def Let_def dict_get_def)

lemma later_blocks_keep_tax_rate:
  "dict_get (volume_inputs emb g vd d) ''TaxRate'' = dict_get d ''TaxRate''"
  "dict_get (cogs_inputs emb g d) ''TaxRate'' = dict_get d ''TaxRate''"
  "dict_get (marketing_inputs emb g d) ''TaxRate'' = dict_get d ''TaxRate''"
  "dict_get (reinvestment_inputs emb g ys d) ''TaxRate'' = dict_get d ''TaxRate''"
  "dict_get (roic_inputs emb g d) ''TaxRate'' = dict_get d ''TaxRate''"
  by (simp_all add: volume_inputs_def cogs_inputs_def marketing_inputs_def
      reinvestment_inputs_def roic_inputs_def Let_def dict_get_dict_set)

lemma tax_rate_entry:
  "dict_get (compute_unit_economics_inputs emb atlas_get vd ys) ''TaxRate'' =
     dict_get (pnl_inputs emb atlas_get) ''TaxRate''"
  by (simp add: compute_unit_economics_inputs_def Let_def dict_get_fill_additive
      dict_get_dict_set later_blocks_keep_tax_rate del: fill_additive.simps)

text \<open>
  Names that no stage of \<open>resolve\<close> matches resolve to themselves; the two tax concepts
  are such names.
\<close>

lemma resolve_plain_name:
  assumes "py_strip x = x" "strip_prefix x = x" "py_split (py_lower x) = [w]"
    and "x \<notin> set (dict_keys CANONICAL_LOOKUP)"
    and "w \<notin> set (map py_lower (dict_keys CANONICAL_LOOKUP))"
  shows "resolve no_embedding x = x"
proof -
  have "resolve no_embedding x = strip_prefix (py_strip x)"
  proof (rule resolve_unmatched)
    show "no_embedding a b = None" for a b by (simp add: no_embedding_def)
    show "py_strip x \<notin> set (dict_keys CANONICAL_LOOKUP)" using assms by simp
    show "py_split (py_lower (strip_prefix (py_strip x))) \<noteq> [py_lower a]"
      if "a \<in> set (dict_keys CANONICAL_LOOKUP)" for a
      using assms that by auto
  qed
  with assms show ?thesis by simp
qed

lemma resolve_tax_names:
  "resolve no_embedding ''IncomeTaxExpenseBenefit'' = ''IncomeTaxExpenseBenefit''"
  "resolve no_embedding
     ''IncomeLossFromContinuingOperationsBeforeIncomeTaxesExtraordinaryItemsNoncontrollingInterest'' =
   ''IncomeLossFromContinuingOperationsBeforeIncomeTaxesExtraordinaryItemsNoncontrollingInterest''"
proof -
  show "resolve no_embedding ''IncomeTaxExpenseBenefit'' = ''IncomeTaxExpenseBenefit''"
  proof (rule resolve_plain_name)
    show "py_strip ''IncomeTaxExpenseBenefit'' = ''IncomeTaxExpenseBenefit''" by code_simp
    show "strip_prefix ''IncomeTaxExpenseBenefit'' = ''IncomeTaxExpenseBenefit''" by code_simp
    show "py_split (py_lower ''IncomeTaxExpenseBenefit'') = [''incometaxexpensebenefit'']"
      by code_simp
    show "''IncomeTaxExpenseBenefit'' \<notin> set (dict_keys CANONICAL_LOOKUP)"
      unfolding alias_list by simp
    show "''incometaxexpensebenefit'' \<notin> set (map py_lower (dict_keys CANONICAL_LOOKUP))"
      unfolding lower_aliases by simp
  qed
  show "resolve no_embedding
     ''IncomeLossFromContinuingOperationsBeforeIncomeTaxesExtraordinaryItemsNoncontrollingInterest'' =
   ''IncomeLossFromContinuingOperationsBeforeIncomeTaxesExtraordinaryItemsNoncontrollingInterest''"
  proof (rule resolve_plain_name)
    show "py_strip ''IncomeLossFromContinuingOperationsBeforeIncomeTaxesExtraordinaryItemsNoncontrollingInterest'' = ''IncomeLossFromContinuingOperationsBeforeIncomeTaxesExtraordinaryItemsNoncontrollingInterest''" by code_simp
    show "strip_prefix ''IncomeLossFromContinuingOperationsBeforeIncomeTaxesExtraordinaryItemsNoncontrollingInterest'' = ''IncomeLossFromContinuingOperationsBeforeIncomeTaxesExtraordinaryItemsNoncontrollingInterest''" by code_simp
    show "py_split (py_lower ''IncomeLossFromContinuingOperationsBeforeIncomeTaxesExtraordinaryItemsNoncontrollingInterest'') = [''incomelossfromcontinuingoperationsbeforeincometaxesextraordinaryitemsnoncontrollinginterest'']"
      by code_simp
    show "''IncomeLossFromContinuingOperationsBeforeIncomeTaxesExtraordinaryItemsNoncontrollingInterest'' \<notin> set (dict_keys CANONICAL_LOOKUP)"
      unfolding alias_list by simp
    show "''incomelossfromcontinuingoperationsbeforeincometaxesextraordinaryitemsnoncontrollinginterest'' \<notin> set (map py_lower (dict_keys CANONICAL_LOOKUP))"
      unfolding lower_aliases by simp
  qed
qed

text \<open>
  C8, as amended. When the tax provision and the pre-tax income are both resolved, the
  provision is not zero and the pre-tax income is strictly positive, the \<open>TaxRate\<close> input
  is the provision divided by the pre-tax income, clamped to \<open>[0, 1/2]\<close>. When either
  figure is missing or the pre-tax income is not positive, it is the default 0.21.
\<close>

theorem effective_tax_rate:
  assumes "tax_provision = atlas_get (resolve emb ''IncomeTaxExpenseBenefit'') None"
    and "pre_tax = atlas_get (resolve emb
      ''IncomeLossFromContinuingOperationsBeforeIncomeTaxesExtraordinaryItemsNoncontrollingInterest'')
      None"
    and "tax_rate = dict_get (compute_unit_economics_inputs emb atlas_get vd ys) ''TaxRate''"
  shows "(\<forall>t p. tax_provision = Some t \<and> pre_tax = Some p \<and> t \<noteq> 0 \<and> 0 < p
            \<longrightarrow> tax_rate = Some (Some (max 0 (min (t / p) (1 / 2)))))
       \<and> (tax_provision = None \<or> pre_tax = None \<or> (\<exists>p. pre_tax = Some p \<and> p \<le> 0)
            \<longrightarrow> tax_rate = Some (Some (21 / 100)))"
  unfolding assms tax_rate_entry pnl_tax_rate
  by (auto simp: Let_def truthy_def)

theorem effective_tax_rate_witness:
  "dict_get (compute_unit_economics_inputs no_embedding profit_filing_get ''Revenue'' [Some 2023])
     ''TaxRate'' = Some (Some (3 / 10))"
proof -
  have "dict_get (compute_unit_economics_inputs no_embedding profit_filing_get ''Revenue''
          [Some 2023]) ''TaxRate'' = Some (Some (max 0 (min (30 / 100) (1 / 2))))"
    using effective_tax_rate [OF refl refl refl, of profit_filing_get no_embedding
        "''Revenue''" "[Some 2023]"]
    by (simp add: resolve_tax_names profit_filing_get_def)
  then show ?thesis by simp
qed

text \<open>
  C8 as stated fails for a filing with a pre-tax loss: a tax benefit of 30 on a loss of 100
  gives the ratio 0.3, inside \<open>[0, 1/2]\<close>, but the guard \<open>pre_tax > 0\<close> keeps the
  default 0.21.
\<close>

theorem pre_tax_loss_counterexample:
  "loss_filing_get (resolve no_embedding ''IncomeTaxExpenseBenefit'') None = Some (- 30)
   \<and> loss_filing_get (resolve no_embedding ''IncomeLossFromContinuingOperationsBeforeIncomeTaxesExtraordinaryItemsNoncontrollingInterest'') None = Some (- 100)
   \<and> max 0 (min ((- 30) / (- 100)) (1 / 2)) = (3 / 10 :: real)
   \<and> dict_get (compute_unit_economics_inputs no_embedding loss_filing_get ''Revenue'' [Some 2023])
       ''TaxRate'' = Some (Some (21 / 100))"
  by (simp add: tax_rate_entry pnl_tax_rate resolve_tax_names loss_filing_get_def truthy_def)

section \<open>Properties of the identity solver\<close>

lemma model_get_dict_set:
  "model_get (dict_set m k (Some v)) k' = (if k' = k then Some v else model_get m k')"
  by (simp add: model_get_def dict_get_dict_set)

text \<open>
  One rule of a pass either leaves the model and the flag alone, or binds its target,
  unknown until then, to a value and raises the flag.
\<close>

lemma run_solvers_step:
  "\<exists>u1 c1. run_solvers sympy ((name, target, requires) # rest) (u, c)
              = run_solvers sympy rest (u1, c1)
     \<and> ((u1 = u \<and> c1 = c)
        \<or> (\<exists>val. model_get u target = None \<and> u1 = dict_set u target (Some val) \<and> c1))"
  by (cases "solve_unit_identity sympy name u target") auto

text \<open>A pass never touches a key whose value is known.\<close>

lemma run_solvers_keeps:
  "run_solvers sympy rules (u, c) = (u', c') \<Longrightarrow> model_get u k \<noteq> None
     \<Longrightarrow> dict_get u' k = dict_get u k"
proof (induction rules arbitrary: u c)
  case Nil
  then show ?case by simp
next
  case (Cons r rest)
  obtain name target requires where r: "r = (name, target, requires)" by (cases r)
  from run_solvers_step [of sympy name target requires rest u c]
  obtain u1 c1 where eq: "run_solvers sympy ((name, target, requires) # rest) (u, c)
        = run_solvers sympy rest (u1, c1)"
    and step: "(u1 = u \<and> c1 = c)
        \<or> (\<exists>val. model_get u target = None \<and> u1 = dict_set u target (Some val) \<and> c1)"
    by blast
  from eq Cons.prems(1) r have run: "run_solvers sympy rest (u1, c1) = (u', c')"
    by (simp only:)
  from step Cons.prems(2) have same: "dict_get u1 k = dict_get u k"
    by (auto simp: dict_get_dict_set)
  then have "model_get u1 k = model_get u k" by (simp add: model_get_def)
  with Cons.prems(2) Cons.IH [OF run] same show ?case by simp
qed

text \<open>A pass changes rule targets only, from unknown to known.\<close>

lemma run_solvers_changes:
  "run_solvers sympy rules (u, c) = (u', c') \<Longrightarrow> dict_get u' k \<noteq> dict_get u k
     \<Longrightarrow> k \<in> set (map (\<lambda>(name, target, requires). target) rules)
         \<and> model_get u k = None \<and> model_get u' k \<noteq> None"
proof (induction rules arbitrary: u c)
  case Nil
  then show ?case by simp
next
  case (Cons r rest)
  obtain name target requires where r: "r = (name, target, requires)" by (cases r)
  from run_solvers_step [of sympy name target requires rest u c]
  obtain u1 c1 where eq: "run_solvers sympy ((name, target, requires) # rest) (u, c)
        = run_solvers sympy rest (u1, c1)"
    and step: "(u1 = u \<and> c1 = c)
        \<or> (\<exists>val. model_get u target = None \<and> u1 = dict_set u target (Some val) \<and> c1)"
    by blast
  from eq Cons.prems(1) r have run: "run_solvers sympy rest (u1, c1) = (u', c')"
    by (simp only:)
  show ?case
  proof (cases "dict_get u' k = dict_get u1 k")
    case True
    with Cons.prems(2) step obtain val where fired: "model_get u target = None"
      "u1 = dict_set u target (Some val)" by auto
    with True Cons.prems(2) have k: "k = target"
      by (auto simp: dict_get_dict_set split: if_splits)
    with True fired have "model_get u' k \<noteq> None"
      by (simp add: model_get_def dict_get_dict_set)
    with k fired r show ?thesis by simp
  next
    case False
    from Cons.IH [OF run False]
    have ih: "k \<in> set (map (\<lambda>(name, target, requires). target) rest)"
      "model_get u1 k = None" "model_get u' k \<noteq> None" by auto
    from step ih(2) have "model_get u k = None"
      by (auto simp: model_get_dict_set split: if_splits)
    with ih show ?thesis by simp
  qed
qed

text \<open>A pass that reports a change has made an unknown target known.\<close>

lemma run_solvers_progress:
  "run_solvers sympy rules (u, c) = (u', c')
     \<Longrightarrow> (c' = c \<and> u' = u)
         \<or> (c' \<and> (\<exists>t. t \<in> set (map (\<lambda>(name, target, requires). target) rules)
                     \<and> model_get u t = None \<and> model_get u' t \<noteq> None))"
proof (induction rules arbitrary: u c)
  case Nil
  then show ?case by simp
next
  case (Cons r rest)
  obtain name target requires where r: "r = (name, target, requires)" by (cases r)
  from run_solvers_step [of sympy name target requires rest u c]
  obtain u1 c1 where eq: "run_solvers sympy ((name, target, requires) # rest) (u, c)
        = run_solvers sympy rest (u1, c1)"
    and step: "(u1 = u \<and> c1 = c)
        \<or> (\<exists>val. model_get u target = None \<and> u1 = dict_set u target (Some val) \<and> c1)"
    by blast
  from eq Cons.prems(1) r have run: "run_solvers sympy rest (u1, c1) = (u', c')"
    by (simp only:)
  from step show ?case
  proof
    assume same: "u1 = u \<and> c1 = c"
    with Cons.IH [OF run] show ?thesis by auto
  next
    assume "\<exists>val. model_get u target = None \<and> u1 = dict_set u target (Some val) \<and> c1"
    then obtain val where fired: "model_get u target = None"
      "u1 = dict_set u target (Some val)" "c1" by auto
    then have "model_get u1 target \<noteq> None" by (simp add: model_get_dict_set)
    from run_solvers_keeps [OF run this] fired
    have t: "model_get u' target \<noteq> None"
      by (simp add: model_get_def dict_get_dict_set)
    from Cons.IH [OF run] fired(3) have "c'" by auto
    with t fired(1) r show ?thesis by auto
  qed
qed

lemma filter_length_le:
  "(\<And>x. Q x \<Longrightarrow> P x) \<Longrightarrow> length (filter Q xs) \<le> length (filter P xs)"
  by (induction xs) auto

lemma filter_length_less:
  "(\<And>x. Q x \<Longrightarrow> P x) \<Longrightarrow> t \<in> set xs \<Longrightarrow> P t \<Longrightarrow> \<not> Q t
     \<Longrightarrow> length (filter Q xs) < length (filter P xs)"
proof (induction xs)
  case Nil
  then show ?case by simp
next
  case (Cons x xs)
  from Cons.prems(1) have le: "length (filter Q xs) \<le> length (filter P xs)"
    by (rule filter_length_le)
  show ?case
  proof (cases "x = t")
    case True
    with Cons.prems le show ?thesis by simp
  next
    case False
    with Cons have "length (filter Q xs) < length (filter P xs)" by simp
    with Cons.prems(1) show ?thesis by auto
  qed
qed

lemma unknown_targets_pass:
  assumes "run_solvers sympy solvers (u, False) = (u', True)"
  shows "length (unknown_targets u') < length (unknown_targets u)"
proof -
  from run_solvers_progress [OF assms]
  have "\<exists>t. t \<in> set (map (\<lambda>(name, target, requires). target) solvers)
           \<and> model_get u t = None \<and> model_get u' t \<noteq> None"
    by simp
  then obtain t where "t \<in> set (map (\<lambda>(name, target, requires). target) solvers)"
    and t': "model_get u t = None" "model_get u' t \<noteq> None"
    by blast
  then have "t \<in> set solver_targets" by (simp add: solver_targets_def)
  note t = this t'
  have sub: "model_get u k = None" if "model_get u' k = None" for k
  proof (rule ccontr)
    assume "model_get u k \<noteq> None"
    from run_solvers_keeps [OF assms this] this that show False
      by (simp add: model_get_def)
  qed
  have "length (filter (\<lambda>t. model_get u' t = None) solver_targets)
      < length (filter (\<lambda>t. model_get u t = None) solver_targets)"
    by (rule filter_length_less [where t = t]) (use t sub in auto)
  then show ?thesis by (simp add: unknown_targets_def)
qed


text \<open>
  The loop returns, and its result extends the model it starts from: measure induction
  on the number of unknown targets.
\<close>

lemma solve_loop_returns:
  "\<exists>r. solve_loop sympy u = Some r
        \<and> (\<forall>k. model_get u k \<noteq> None \<longrightarrow> dict_get r k = dict_get u k)
        \<and> (\<forall>k. dict_get r k \<noteq> dict_get u k \<longrightarrow>
               k \<in> set solver_targets \<and> model_get u k = None \<and> model_get r k \<noteq> None)"
proof (induction u rule: measure_induct_rule [where f = "\<lambda>u. length (unknown_targets u)"])
  case (less u)
  obtain u' changed where pass: "run_solvers sympy solvers (u, False) = (u', changed)"
    by (cases "run_solvers sympy solvers (u, False)")
  have keep: "dict_get u' k = dict_get u k" if "model_get u k \<noteq> None" for k
    using run_solvers_keeps [OF pass that] .
  have change: "k \<in> set solver_targets \<and> model_get u k = None \<and> model_get u' k \<noteq> None"
    if "dict_get u' k \<noteq> dict_get u k" for k
    using run_solvers_changes [OF pass that] by (simp add: solver_targets_def)
  show ?case
  proof (cases changed)
    case False
    with pass have "solve_loop sympy u = Some u'"
      by (subst solve_loop.simps) simp
    with keep change show ?thesis by blast
  next
    case True
    with pass have less': "length (unknown_targets u') < length (unknown_targets u)"
      by (simp add: unknown_targets_pass)
    from less.IH [OF less'] obtain r where r: "solve_loop sympy u' = Some r"
      and rk: "\<And>k. model_get u' k \<noteq> None \<Longrightarrow> dict_get r k = dict_get u' k"
      and rc: "\<And>k. dict_get r k \<noteq> dict_get u' k \<Longrightarrow>
          k \<in> set solver_targets \<and> model_get u' k = None \<and> model_get r k \<noteq> None"
      by blast
    from True pass r have loop: "solve_loop sympy u = Some r"
      by (subst solve_loop.simps) simp
    have k1: "dict_get r k = dict_get u k" if known: "model_get u k \<noteq> None" for k
    proof -
      from keep [OF known] have e: "dict_get u' k = dict_get u k" .
      with known have "model_get u' k \<noteq> None" by (simp add: model_get_def)
      from rk [OF this] e show ?thesis by simp
    qed
    have k2: "k \<in> set solver_targets \<and> model_get u k = None \<and> model_get r k \<noteq> None"
      if diff: "dict_get r k \<noteq> dict_get u k" for k
    proof (cases "dict_get u' k = dict_get u k")
      case True
      with diff have d: "dict_get r k \<noteq> dict_get u' k" by simp
      from rc [OF d] True show ?thesis by (simp add: model_get_def)
    next
      case False
      from change [OF False] have c: "k \<in> set solver_targets" "model_get u k = None"
        "model_get u' k \<noteq> None" by auto
      from rk [OF c(3)] c(3) have "model_get r k \<noteq> None" by (simp add: model_get_def)
      with c show ?thesis by simp
    qed
    from loop k1 k2 show ?thesis by blast
  qed
qed

text \<open>The solver test of the repository: two passes, the second one without a change.\<close>

lemma test_first_pass:
  "run_solvers isolate_left solvers (test_inputs, False) = (test_solved, True)"
  by (simp add: solvers_def test_inputs_def test_solved_def model_get_def dict_get_def
      solve_unit_identity_def solve_identity_def IDENTITIES_def free_symbols_def isolate_left_def)

lemma test_second_pass:
  "run_solvers isolate_left solvers (test_solved, False) = (test_solved, False)"
  by (simp add: solvers_def test_inputs_def test_solved_def model_get_def dict_get_def
      solve_unit_identity_def solve_identity_def IDENTITIES_def free_symbols_def isolate_left_def)

lemma test_solve_missing_values:
  "solve_missing_values isolate_left test_inputs = Some test_solved"
proof -
  have "solve_loop isolate_left test_solved = Some test_solved"
    by (subst solve_loop.simps) (simp add: test_second_pass)
  then have "solve_loop isolate_left test_inputs = Some test_solved"
    by (subst solve_loop.simps) (simp add: test_first_pass)
  then show ?thesis by (simp add: solve_missing_values_def)
qed

text \<open>
  C2. Fixpoint propagation is monotone. For every input model, and whatever the symbolic
  solver answers, \<open>solve_missing_values\<close> returns a model in which every key that had a
  value in the input has exactly that value; an entry differs from the input only for a
  rule target that was missing (absent or \<open>None\<close>) in the input and has a value in the
  result.
\<close>

theorem solve_missing_values_monotone:
  "\<exists>r. solve_missing_values sympy ue_model = Some r
     \<and> (\<forall>k v. dict_get ue_model k = Some (Some v) \<longrightarrow> dict_get r k = Some (Some v))
     \<and> (\<forall>k. dict_get r k \<noteq> dict_get ue_model k \<longrightarrow>
            k \<in> set solver_targets \<and> model_get ue_model k = None
            \<and> (\<exists>v. dict_get r k = Some (Some v)))"
proof -
  from solve_loop_returns [of sympy ue_model]
  obtain r where r: "solve_loop sympy ue_model = Some r"
    and keep: "\<And>k. model_get ue_model k \<noteq> None \<Longrightarrow> dict_get r k = dict_get ue_model k"
    and change: "\<And>k. dict_get r k \<noteq> dict_get ue_model k \<Longrightarrow>
        k \<in> set solver_targets \<and> model_get ue_model k = None \<and> model_get r k \<noteq> None"
    by blast
  have a: "dict_get r k = Some (Some v)" if "dict_get ue_model k = Some (Some v)" for k v
    using keep [of k] that by (simp add: model_get_def)
  have b: "k \<in> set solver_targets \<and> model_get ue_model k = None
      \<and> (\<exists>v. dict_get r k = Some (Some v))"
    if "dict_get r k \<noteq> dict_get ue_model k" for k
    using change [OF that] by (auto simp: model_get_def split: option.splits)
  from r a b show ?thesis
    unfolding solve_missing_values_def by blast
qed

theorem solve_missing_values_monotone_witness:
  "dict_get (the (solve_missing_values isolate_left test_inputs)) ''Revenue'' = Some (Some 1000)"
proof -
  from solve_missing_values_monotone [of isolate_left test_inputs]
  obtain r where r: "solve_missing_values isolate_left test_inputs = Some r"
    and keep: "\<forall>k v. dict_get test_inputs k = Some (Some v) \<longrightarrow> dict_get r k = Some (Some v)"
    by blast
  have "dict_get test_inputs ''Revenue'' = Some (Some 1000)"
    by (simp add: test_inputs_def dict_get_def)
  with keep have "dict_get r ''Revenue'' = Some (Some 1000)" by blast
  with r show ?thesis by simp
qed

text \<open>
  C3. \<open>solve_missing_values\<close> terminates on every input model: the loop, defined without
  any termination argument, returns a model. Each pass either reports a change, and then
  strictly fewer rule targets are unknown after it than before it, or reports none and
  leaves the model as it was, which ends the loop. The rule table has eight targets, so
  there are at most nine passes.
\<close>

theorem solve_missing_values_terminates:
  "(\<exists>r. solve_missing_values sympy ue_model = Some r)
   \<and> (\<forall>u u' changed. run_solvers sympy solvers (u, False) = (u', changed) \<longrightarrow>
          (changed \<longrightarrow> length (unknown_targets u') < length (unknown_targets u))
          \<and> (\<not> changed \<longrightarrow> u' = u))"
proof -
  from solve_loop_returns [of sympy ue_model]
  have "\<exists>r. solve_missing_values sympy ue_model = Some r"
    unfolding solve_missing_values_def by blast
  moreover have "length (unknown_targets u') < length (unknown_targets u)"
    if "run_solvers sympy solvers (u, False) = (u', changed)" changed for u u' changed
    using that by (simp add: unknown_targets_pass)
  moreover have "u' = u"
    if "run_solvers sympy solvers (u, False) = (u', changed)" "\<not> changed" for u u' changed
    using run_solvers_progress [OF that(1)] that(2) by auto
  ultimately show ?thesis by blast
qed

theorem solve_missing_values_terminates_witness:
  "solve_missing_values isolate_left test_inputs = Some test_solved
   \<and> length (unknown_targets test_solved) < length (unknown_targets test_inputs)"
proof -
  from solve_missing_values_terminates [of isolate_left test_inputs]
  have "run_solvers isolate_left solvers (test_inputs, False) = (test_solved, True) \<longrightarrow>
      length (unknown_targets test_solved) < length (unknown_targets test_inputs)"
    by blast
  with test_first_pass test_solve_missing_values show ?thesis by blast
qed

section \<open>Properties of the concept series and values\<close>

text \<open>The example filings, evaluated.\<close>

lemma resolve_Revenues: "resolve no_embedding ''Revenues'' = ''Revenue''"
proof -
  have "dict_get CANONICAL_LOOKUP ''Revenues'' = Some ''Revenue''" by code_simp
  moreover have "py_strip ''Revenues'' = ''Revenues''" by code_simp
  ultimately show ?thesis by (simp add: resolve_def)
qed

lemma resolve_Revenue: "resolve no_embedding ''Revenue'' = ''Revenue''"
proof (rule resolve_plain_name)
  show "py_strip ''Revenue'' = ''Revenue''" by code_simp
  show "strip_prefix ''Revenue'' = ''Revenue''" by code_simp
  show "py_split (py_lower ''Revenue'') = [''revenue'']" by code_simp
  show "''Revenue'' \<notin> set (dict_keys CANONICAL_LOOKUP)" unfolding alias_list by simp
  show "''revenue'' \<notin> set (map py_lower (dict_keys CANONICAL_LOOKUP))"
    unfolding lower_aliases by simp
qed

lemma revenues_fact_year:
  "extract_end_date_year plain_runtime (revenues_fact ''c2020'' v) = Some 2020"
  "extract_end_date_year plain_runtime (revenues_fact ''c2021'' v) = Some 2021"
  "extract_end_date_year plain_runtime (revenues_fact ''c2022'' v) = Some 2022"
  by (simp_all add: extract_end_date_year_def revenues_fact_def year_contexts_def
      plain_runtime_def decimal_def digit_value_def)

lemma revenues_fact_matches:
  "alias_matches plain_runtime ''Revenue'' (revenues_fact c v # fs)
     = revenues_fact c v # alias_matches plain_runtime ''Revenue'' fs"
  "alias_matches plain_runtime ''Revenue'' [] = []"
  by (simp_all add: alias_matches_def revenues_fact_def plain_runtime_def
        resolve_Revenues resolve_Revenue)

lemma revenues_fact_value:
  "float_value plain_runtime (revenues_fact c ''5'') = Some 5"
  "float_value plain_runtime (revenues_fact c ''7'') = Some 7"
  "float_value plain_runtime (revenues_fact c ''9'') = Some 9"
  "float_value plain_runtime (revenues_fact c ''n/a'') = None"
  by (simp_all add: float_value_def revenues_fact_def plain_runtime_def decimal_def
      digit_value_def)

















text \<open>The head of a stable sort is the first element of the least key.\<close>

lemma hd_insort_key:
  "hd (insort_key f x ys) = (if ys = [] \<or> f x \<le> f (hd ys) then x else hd ys)"
  by (cases ys) auto

lemma hd_sort_key_first_least:
  "xs \<noteq> [] \<Longrightarrow>
     \<exists>pre post. xs = pre @ hd (sort_key f xs) # post
       \<and> (\<forall>p \<in> set pre. f (hd (sort_key f xs)) < f p)
       \<and> (\<forall>p \<in> set post. f (hd (sort_key f xs)) \<le> f p)"
proof (induction xs)
  case Nil
  then show ?case by simp
next
  case (Cons x xs)
  show ?case
  proof (cases "xs = []")
    case True
    then show ?thesis by (intro exI [of _ "[]"]) simp
  next
    case False
    let ?h = "hd (sort_key f xs)"
    from Cons.IH [OF False] obtain pre post where ih: "xs = pre @ ?h # post"
      "\<forall>p \<in> set pre. f ?h < f p" "\<forall>p \<in> set post. f ?h \<le> f p" by blast
    from False have ne: "sort_key f xs \<noteq> []" by (cases xs) (simp_all add: sort_key_simps)
    have least: "f ?h \<le> f p" if "p \<in> set xs" for p
    proof -
      from that ih(1) have "p \<in> set pre \<or> p = ?h \<or> p \<in> set post"
        by (metis Un_iff set_ConsD set_append)
      with ih(2,3) show ?thesis by fastforce
    qed
    show ?thesis
    proof (cases "f x \<le> f ?h")
      case True
      with ne have "hd (sort_key f (x # xs)) = x"
        by (simp add: sort_key_simps hd_insort_key)
      moreover from True least have "\<forall>p \<in> set xs. f x \<le> f p" by fastforce
      ultimately show ?thesis by (intro exI [of _ "[]"] exI [of _ xs]) simp
    next
      case gt: False
      with ne have h: "hd (sort_key f (x # xs)) = ?h"
        by (simp add: sort_key_simps hd_insort_key)
      from ih(1) have "x # xs = (x # pre) @ ?h # post" by simp
      moreover from gt ih(2) have "\<forall>p \<in> set (x # pre). f ?h < f p" by auto
      ultimately show ?thesis unfolding h using ih(3) by blast
    qed
  qed
qed

text \<open>
  C10. \<open>get_concept_value\<close> called with a year in which no matching dated fact ends.
  Without any matching dated fact the result is \<open>None\<close>. Otherwise the nearest fact is the
  first fact, in input order, whose end year has the least absolute difference to the
  requested year; when its value is a number, that value is returned. When its value is
  not a number, the result is the value of the fact of the latest year, and \<open>None\<close> when
  that is not a number either.
\<close>

theorem nearest_year_value:
  assumes "dated = dated_facts rt (value_matches rt concept all_facts)"
    and "near = hd (sort_key (\<lambda>(y, f). \<bar>y - yr\<bar>) dated)"
    and "result = get_concept_value rt concept all_facts (Some yr)"
  shows "(dated = [] \<longrightarrow> result = None)
    \<and> (dated \<noteq> [] \<and> yr \<notin> fst ` set dated \<longrightarrow>
         (\<exists>pre post. dated = pre @ near # post
            \<and> (\<forall>(y, f) \<in> set pre. \<bar>fst near - yr\<bar> < \<bar>y - yr\<bar>)
            \<and> (\<forall>(y, f) \<in> set post. \<bar>fst near - yr\<bar> \<le> \<bar>y - yr\<bar>))
         \<and> (\<forall>v. float_value rt (snd near) = Some v \<longrightarrow> result = Some v)
         \<and> (float_value rt (snd near) = None \<longrightarrow>
               result = float_value rt
                 (snd (last (sort_key fst (sort_key (\<lambda>(y, f). \<bar>y - yr\<bar>) dated))))))"
proof (intro conjI impI)
  assume "dated = []"
  with assms(1,3) show "result = None"
    by (simp add: get_concept_value_def Let_def)
next
  assume a: "dated \<noteq> [] \<and> yr \<notin> fst ` set dated"
  then have ne: "dated \<noteq> []" by simp
  from hd_sort_key_first_least [OF ne, of "\<lambda>(y, f). \<bar>y - yr\<bar>"]
  obtain pre post where pp: "dated = pre @ near # post"
    "\<forall>p \<in> set pre. (case near of (y, f) \<Rightarrow> \<bar>y - yr\<bar>) < (case p of (y, f) \<Rightarrow> \<bar>y - yr\<bar>)"
    "\<forall>p \<in> set post. (case near of (y, f) \<Rightarrow> \<bar>y - yr\<bar>) \<le> (case p of (y, f) \<Rightarrow> \<bar>y - yr\<bar>)"
    unfolding assms(2) by blast
  show "\<exists>pre post. dated = pre @ near # post
            \<and> (\<forall>(y, f) \<in> set pre. \<bar>fst near - yr\<bar> < \<bar>y - yr\<bar>)
            \<and> (\<forall>(y, f) \<in> set post. \<bar>fst near - yr\<bar> \<le> \<bar>y - yr\<bar>)"
    using pp by (intro exI [of _ pre] exI [of _ post]) (auto simp: case_prod_beta)
  from a have exact: "filter (\<lambda>(y, f). y = yr) dated = []"
    by (force simp: filter_empty_conv)
  from ne assms(1) have m: "value_matches rt concept all_facts \<noteq> []"
    by (auto simp: dated_facts_def)
  show "\<forall>v. float_value rt (snd near) = Some v \<longrightarrow> result = Some v"
    using ne exact m unfolding assms(3) get_concept_value_def Let_def assms(1) [symmetric]
    by (simp add: assms(2))
  show "result = float_value rt
      (snd (last (sort_key fst (sort_key (\<lambda>(y, f). \<bar>y - yr\<bar>) dated))))"
    if "float_value rt (snd near) = None"
    using ne exact m that unfolding assms(3) get_concept_value_def Let_def assms(1) [symmetric]
    by (simp add: assms(2))
qed

lemma gap_facts_dated:
  "dated_facts plain_runtime (value_matches plain_runtime ''Revenue'' gap_facts) =
     [(2020, revenues_fact ''c2020'' ''5''), (2022, revenues_fact ''c2022'' ''9'')]"
  by (simp add: value_matches_def gap_facts_def dated_facts_def
      revenues_fact_matches revenues_fact_year)

theorem nearest_year_value_witness:
  "get_concept_value plain_runtime ''Revenue'' gap_facts (Some 2021) = Some 5
   \<and> get_concept_value plain_runtime ''Revenue'' gap_facts (Some 2023) = Some 9"
proof
  show "get_concept_value plain_runtime ''Revenue'' gap_facts (Some 2021) = Some 5"
    using nearest_year_value [OF gap_facts_dated [symmetric] refl refl, of 2021]
    by (simp add: revenues_fact_value)
  show "get_concept_value plain_runtime ''Revenue'' gap_facts (Some 2023) = Some 9"
    using nearest_year_value [OF gap_facts_dated [symmetric] refl refl, of 2023]
    by (simp add: revenues_fact_value)
qed

lemma unparsable_facts_matches:
  "value_matches plain_runtime ''Revenue'' unparsable_facts = unparsable_facts"
  by (simp add: value_matches_def unparsable_facts_def revenues_fact_matches)

theorem nearest_unparsable_counterexample:
  "revenues_fact ''c2021'' ''5'' \<in> set (value_matches plain_runtime ''Revenue'' unparsable_facts)
   \<and> extract_end_date_year plain_runtime (revenues_fact ''c2021'' ''5'') = Some 2021
   \<and> float_value plain_runtime (revenues_fact ''c2021'' ''5'') = Some 5
   \<and> 2019 \<notin> fst ` set (dated_facts plain_runtime
                          (value_matches plain_runtime ''Revenue'' unparsable_facts))
   \<and> get_concept_value plain_runtime ''Revenue'' unparsable_facts (Some 2019) = None"
  unfolding get_concept_value_def unparsable_facts_matches
  by (simp add: unparsable_facts_def dated_facts_def revenues_fact_year revenues_fact_value)

section \<open>Properties of the fact index\<close>

lemma dict_get_in_keys: "k \<in> set (dict_keys d) \<Longrightarrow> dict_get d k \<noteq> None"
  by (simp add: dict_get_def dict_keys_def map_of_eq_None_iff)

lemma dict_get_distinct:
  "distinct (dict_keys d) \<Longrightarrow> (k, v) \<in> set d \<Longrightarrow> dict_get d k = Some v"
  by (simp add: dict_get_def dict_keys_def)

lemma sort_context_ids_keys:
  "set cids \<subseteq> set (dict_keys contexts) \<Longrightarrow>
     sort_context_ids lib cids contexts
       = Inr (rev (sort_key (sort_date_key lib contexts) (rev cids)))"
  using dict_get_in_keys [of _ contexts] by (auto simp: sort_context_ids_def)

lemma reverse_sorted_newest_first:
  "sorted_wrt (\<lambda>a b. f b \<le> f a) (rev (sort_key f xs))"
  using sorted_sort_key [of f xs] by (simp add: sorted_wrt_rev sorted_map)

lemma reverse_sorted_stable:
  "filter (\<lambda>x. f x = k) (rev (sort_key f (rev xs))) = filter (\<lambda>x. f x = k) xs"
  by (simp add: rev_filter [symmetric] sort_key_stable)

lemma reverse_sorted_unchanged:
  assumes "sorted_wrt (\<lambda>a b. f b \<le> f a) xs"
  shows "rev (sort_key f (rev xs)) = xs"
proof -
  from assms have "sorted (map f (rev xs))" by (simp add: sorted_map sorted_wrt_rev)
  then have "sort_key f (rev xs) = rev xs" by (rule sort_key_id_if_sorted)
  then show ?thesis by simp
qed

lemma duration_matches_subseq:
  "subseq (duration_matches lib contexts wanted) (dict_keys contexts)"
  by (simp add: duration_matches_def dict_keys_def subseq_map)

lemma singleton_subseq: "x \<in> set ys \<Longrightarrow> subseq [x] ys"
  by (induction ys) auto

lemma subseq_keys_subset: "subseq xs ys \<Longrightarrow> set xs \<subseteq> set ys"
  by (auto dest: list_emb_set)


lemma all_related_sorted_wrt:
  "(\<And>x y. x \<in> set xs \<Longrightarrow> y \<in> set xs \<Longrightarrow> P x y) \<Longrightarrow> sorted_wrt P xs"
  by (induction xs) auto

lemma latest_contexts_subseq: "subseq (latest_contexts lib contexts) (dict_keys contexts)"
proof -
  have "subseq (map fst (filter P (dated_contexts lib contexts))) (map fst contexts)" for P
  proof -
    have "map fst (filter P (dated_contexts lib contexts))
        = map fst (filter (\<lambda>(cid, ctx). P (cid, the (context_sort_date lib ctx)))
                    (filter (\<lambda>(cid, ctx). context_sort_date lib ctx \<noteq> None) contexts))"
      unfolding dated_contexts_def filter_map map_map
      by (rule arg_cong2 [where f = map]) (auto simp: fun_eq_iff intro: filter_cong)
    then show ?thesis by (simp add: subseq_map)
  qed
  then show ?thesis by (simp add: latest_contexts_def Let_def dict_keys_def)
qed

lemma dated_contexts_key:
  assumes "distinct (dict_keys contexts)" "(cid, d) \<in> set (dated_contexts lib contexts)"
  shows "sort_date_key lib contexts cid = d"
proof -
  from assms(2) obtain ctx where c: "(cid, ctx) \<in> set contexts"
    "context_sort_date lib ctx \<noteq> None" "d = the (context_sort_date lib ctx)"
    by (auto simp: dated_contexts_def)
  from dict_get_distinct [OF assms(1) c(1)] c(2,3) show ?thesis
    by (auto simp: sort_date_key_def)
qed

lemma latest_contexts_same_date:
  assumes "distinct (dict_keys contexts)"
    "a \<in> set (latest_contexts lib contexts)" "b \<in> set (latest_contexts lib contexts)"
  shows "sort_date_key lib contexts a = sort_date_key lib contexts b"
proof -
  define m where "m = foldl max (snd (hd (dated_contexts lib contexts)))
                        (map snd (tl (dated_contexts lib contexts)))"
  have "sort_date_key lib contexts c = m" if "c \<in> set (latest_contexts lib contexts)" for c
  proof -
    from that have "(c, m) \<in> set (dated_contexts lib contexts)"
      by (auto simp: latest_contexts_def Let_def m_def split: if_splits)
    from dated_contexts_key [OF assms(1) this] show ?thesis .
  qed
  with assms(2,3) show ?thesis by simp
qed

text \<open>The branch \<open>MRQ\<close>: the second sort leaves the order of the first.\<close>

lemma prod_le_fst: "p \<le> q \<Longrightarrow> fst p \<le> fst q"
  for p q :: "'a::order \<times> 'b::order"
  by (auto simp: less_eq_prod_def)

lemma duration_entries_key:
  assumes "distinct (dict_keys contexts)" "t \<in> set (duration_entries lib contexts)"
  shows "(case t of (date, len, cid) \<Rightarrow> cid) \<in> set (dict_keys contexts)
    \<and> (sort_date_key lib contexts (case t of (date, len, cid) \<Rightarrow> cid),
        context_duration_days lib (the (dict_get contexts (case t of (date, len, cid) \<Rightarrow> cid))),
        (case t of (date, len, cid) \<Rightarrow> cid)) = t"
proof -
  from assms(2) obtain cid ctx where c: "(cid, ctx) \<in> set contexts"
    "context_sort_date lib ctx \<noteq> None"
    "t = (the (context_sort_date lib ctx), context_duration_days lib ctx, cid)"
    by (auto simp: duration_entries_def)
  from dict_get_distinct [OF assms(1) c(1)] c show ?thesis
    by (force simp: sort_date_key_def dict_keys_def)
qed

lemma most_recent_quarter_order:
  assumes d: "distinct (dict_keys contexts)"
    and r: "most_recent_quarter lib contexts = Inr cids"
  shows "sorted_wrt (\<lambda>a b.
            (sort_date_key lib contexts b,
             context_duration_days lib (the (dict_get contexts b)), b)
          \<le> (sort_date_key lib contexts a,
             context_duration_days lib (the (dict_get contexts a)), a)) cids"
    and "sorted_wrt (\<lambda>a b. sort_date_key lib contexts b \<le> sort_date_key lib contexts a) cids"
proof -
  let ?D = "duration_entries lib contexts"
  let ?S = "rev (sort_key (\<lambda>t. t) (rev ?D))"
  let ?cid = "\<lambda>(date :: datetime, len :: int option, cid :: string). cid"
  let ?k = "\<lambda>c. (sort_date_key lib contexts c,
                 context_duration_days lib (the (dict_get contexts c)), c)"
  have full: "sorted_wrt (\<lambda>a b. ?k b \<le> ?k a) (map ?cid (filter Q ?S))"
    and keys: "set (map ?cid (filter Q ?S)) \<subseteq> set (dict_keys contexts)" for Q
  proof -
    have "sorted_wrt (\<lambda>a b. b \<le> a) ?S" by (rule reverse_sorted_newest_first)
    then have a: "sorted_wrt (\<lambda>a b. b \<le> a) (filter Q ?S)" by (rule sorted_wrt_filter)
    have b: "?k (?cid t) = t" if "t \<in> set (filter Q ?S)" for t
      using duration_entries_key [OF d, of t lib] that by simp
    show "sorted_wrt (\<lambda>a b. ?k b \<le> ?k a) (map ?cid (filter Q ?S))"
      unfolding sorted_wrt_map by (rule sorted_wrt_mono_rel [OF _ a]) (simp add: b)
    show "set (map ?cid (filter Q ?S)) \<subseteq> set (dict_keys contexts)"
      using duration_entries_key [OF d, of _ lib] by auto
  qed
  have dates: "sorted_wrt (\<lambda>a b. sort_date_key lib contexts b \<le> sort_date_key lib contexts a)
                 (map ?cid (filter Q ?S))" for Q
    by (rule sorted_wrt_mono_rel [OF _ full [of Q]]) (drule prod_le_fst, simp)
  have res: "sort_context_ids lib (map ?cid (filter Q ?S)) contexts
               = Inr (map ?cid (filter Q ?S))" for Q
    by (simp add: sort_context_ids_keys [OF keys] reverse_sorted_unchanged [OF dates])
  from r obtain Q where "cids = map ?cid (filter Q ?S)"
  proof (cases "map ?cid (filter (\<lambda>(date, len, cid). quarter_like len) ?S) = []")
    case True
    with r have "cids = map ?cid (filter (\<lambda>t. True) ?S)"
      using res [of "\<lambda>t. True"]
      by (simp add: most_recent_quarter_def Let_def split: if_splits)
    with that show ?thesis .
  next
    case False
    with r have "cids = map ?cid (filter (\<lambda>(date, len, cid). quarter_like len) ?S)"
      using res [of "\<lambda>(date, len, cid). quarter_like len"]
      by (simp add: most_recent_quarter_def Let_def split: if_splits)
    with that show ?thesis .
  qed
  with full dates show
    "sorted_wrt (\<lambda>a b. ?k b \<le> ?k a) cids"
    "sorted_wrt (\<lambda>a b. sort_date_key lib contexts b \<le> sort_date_key lib contexts a) cids"
    by simp_all
qed


lemma resolve_period_cases:
  assumes r: "resolve_period lib contexts (Some pa) = Inr cids"
  obtains (empty) "cids = []"
  | (single) "py_strip pa \<in> set (dict_keys contexts)" "cids = [py_strip pa]"
  | (latest) "py_upper (py_strip pa) = ''LATEST''" "cids = latest_contexts lib contexts"
  | (mrq) "py_strip pa \<notin> set (dict_keys contexts)" "py_upper (py_strip pa) = ''MRQ''"
      "most_recent_quarter lib contexts = Inr cids"
  | (matches) wanted where "py_upper (py_strip pa) \<noteq> ''MRQ''"
      "sort_context_ids lib (duration_matches lib contexts wanted) contexts = Inr cids"
proof -
  define s where "s = py_strip pa"
  define u where "u = py_upper s"
  note r' = r [unfolded resolve_period_def option.case, folded s_def, folded u_def]
  show thesis
  proof (cases "contexts = [] \<or> pa = [] \<or> s = []")
    case True
    with r' have "cids = []" by (simp split: if_splits)
    then show thesis by (rule empty)
  next
    case c1: False
    show thesis
    proof (cases "s \<in> set (dict_keys contexts)")
      case True
      with c1 r' have "cids = [s]" by simp
      with True show thesis unfolding s_def by (rule single)
    next
      case c2: False
      show thesis
      proof (cases "u = ''LATEST''")
        case True
        with c1 c2 r' have "cids = latest_contexts lib contexts" by simp
        with True show thesis unfolding u_def s_def by (rule latest)
      next
        case c3: False
        show thesis
        proof (cases "u = ''MRQ''")
          case True
          with c1 c2 c3 r' have "most_recent_quarter lib contexts = Inr cids" by simp
          with c2 True show thesis unfolding u_def s_def by (rule mrq)
        next
          case c4: False
          show thesis
          proof (cases "dict_get quarter_months u")
            case (Some target_month)
            with c1 c2 c3 c4 r'
            have "sort_context_ids lib
                    (duration_matches lib contexts (\<lambda>e. dt_month e = target_month)) contexts
                  = Inr cids" by simp
            with c4 show thesis unfolding u_def s_def by (rule matches)
          next
            case None
            show thesis
            proof (cases "startswith u ''FY''")
              case False
              with None c1 c2 c3 c4 r' have "cids = []" by simp
              then show thesis by (rule empty)
            next
              case fy: True
              show thesis
              proof (cases "lib_int lib (drop 2 u)")
                case n: None
                with fy None c1 c2 c3 c4 r' have "cids = []" by simp
                then show thesis by (rule empty)
              next
                case (Some year)
                show thesis
                proof (cases "year = 0")
                  case True
                  with Some fy None c1 c2 c3 c4 r' have "cids = []" by simp
                  then show thesis by (rule empty)
                next
                  case False
                  with Some fy None c1 c2 c3 c4 r'
                  have "sort_context_ids lib
                          (duration_matches lib contexts (\<lambda>e. dt_year e = year)) contexts
                        = Inr cids" by simp
                  with c4 show thesis unfolding u_def s_def by (rule matches)
                qed
              qed
            qed
          qed
        qed
      qed
    qed
  qed
qed

lemma sort_date_key_end_date:
  "context_end_date lib (the (dict_get contexts cid)) = Some d \<Longrightarrow>
     sort_date_key lib contexts cid = d"
  by (simp add: sort_date_key_def context_sort_date_def)

text \<open>
  C7. For every contexts mapping and every period alias for which \<open>resolve_period\<close> returns
  a list, the list is ordered newest-first by the sort date of the contexts, which is the
  period end date of every context that has one. Contexts of the same date are not
  ordered by their start date: unless the alias is \<open>MRQ\<close>, they keep the order in which
  they appear in the contexts mapping; for \<open>MRQ\<close> they are ordered by their duration in
  days, the longest first, and then by context id, descending.
\<close>

theorem resolve_period_order:
  assumes d: "distinct (dict_keys contexts)"
    and r: "resolve_period lib contexts (Some pa) = Inr cids"
  shows "sorted_wrt (\<lambda>a b. sort_date_key lib contexts b \<le> sort_date_key lib contexts a) cids
    \<and> (\<forall>cid \<in> set cids. \<forall>end_date.
          context_end_date lib (the (dict_get contexts cid)) = Some end_date
          \<longrightarrow> sort_date_key lib contexts cid = end_date)
    \<and> (py_strip pa \<in> set (dict_keys contexts) \<or> py_upper (py_strip pa) \<noteq> ''MRQ''
         \<longrightarrow> (\<forall>date. subseq (filter (\<lambda>cid. sort_date_key lib contexts cid = date) cids)
                         (dict_keys contexts)))
    \<and> (py_strip pa \<notin> set (dict_keys contexts) \<and> py_upper (py_strip pa) = ''MRQ''
         \<longrightarrow> sorted_wrt (\<lambda>a b.
                 (sort_date_key lib contexts b,
                  context_duration_days lib (the (dict_get contexts b)), b)
               \<le> (sort_date_key lib contexts a,
                  context_duration_days lib (the (dict_get contexts a)), a)) cids)"
proof -
  let ?newest = "\<lambda>cids. sorted_wrt
      (\<lambda>a b. sort_date_key lib contexts b \<le> sort_date_key lib contexts a) cids"
  let ?ties = "\<lambda>cids. \<forall>date.
      subseq (filter (\<lambda>cid. sort_date_key lib contexts cid = date) cids) (dict_keys contexts)"
  have mapping_order: "?ties xs" if "subseq xs (dict_keys contexts)" for xs
  proof
    fix date
    have "subseq (filter (\<lambda>cid. sort_date_key lib contexts cid = date) xs) xs" by simp
    from subseq_order.trans [OF this that]
    show "subseq (filter (\<lambda>cid. sort_date_key lib contexts cid = date) xs)
            (dict_keys contexts)" .
  qed
  have main: "?newest cids
      \<and> (py_strip pa \<in> set (dict_keys contexts) \<or> py_upper (py_strip pa) \<noteq> ''MRQ''
           \<longrightarrow> ?ties cids)
      \<and> (py_strip pa \<notin> set (dict_keys contexts) \<and> py_upper (py_strip pa) = ''MRQ''
           \<longrightarrow> sorted_wrt (\<lambda>a b.
                 (sort_date_key lib contexts b,
                  context_duration_days lib (the (dict_get contexts b)), b)
               \<le> (sort_date_key lib contexts a,
                  context_duration_days lib (the (dict_get contexts a)), a)) cids)"
    using r
  proof (cases rule: resolve_period_cases)
    case empty
    then show ?thesis by simp
  next
    case single
    from single(1) have "subseq [py_strip pa] (dict_keys contexts)"
      by (rule singleton_subseq)
    from mapping_order [OF this] single show ?thesis by simp
  next
    case latest
    have "?newest (latest_contexts lib contexts)"
    proof (rule all_related_sorted_wrt)
      fix x y
      assume "x \<in> set (latest_contexts lib contexts)" "y \<in> set (latest_contexts lib contexts)"
      from latest_contexts_same_date [OF d this(2) this(1)]
      show "sort_date_key lib contexts y \<le> sort_date_key lib contexts x" by simp
    qed
    moreover have "?ties (latest_contexts lib contexts)"
      by (rule mapping_order) (rule latest_contexts_subseq)
    ultimately show ?thesis using latest by simp
  next
    case mrq
    with most_recent_quarter_order [OF d mrq(3)] show ?thesis by simp
  next
    case (matches wanted)
    let ?ms = "duration_matches lib contexts wanted"
    have sub: "subseq ?ms (dict_keys contexts)" by (rule duration_matches_subseq)
    from matches(2) sort_context_ids_keys [OF subseq_keys_subset [OF sub], of lib]
    have c: "cids = rev (sort_key (sort_date_key lib contexts) (rev ?ms))" by simp
    have "?newest cids" unfolding c by (rule reverse_sorted_newest_first)
    moreover have "?ties cids"
      unfolding c reverse_sorted_stable using mapping_order [OF sub] .
    ultimately show ?thesis using matches(1) by simp
  qed
  then show ?thesis by (simp add: sort_date_key_end_date)
qed


theorem resolve_period_order_witness:
  "resolve_period example_library fiscal_contexts (Some ''q4'') = Inr [''fy2021'', ''fy2020'']
   \<and> sort_date_key example_library fiscal_contexts ''fy2020''
       \<le> sort_date_key example_library fiscal_contexts ''fy2021''
   \<and> subseq (filter (\<lambda>cid. sort_date_key example_library fiscal_contexts cid
                           = (2021, 12, 31, 0, 0, 0, 0)) [''fy2021'', ''fy2020''])
         (dict_keys fiscal_contexts)"
proof -
  have d: "distinct (dict_keys fiscal_contexts)" by code_simp
  have r: "resolve_period example_library fiscal_contexts (Some ''q4'')
             = Inr [''fy2021'', ''fy2020'']" by code_simp
  have a: "py_upper (py_strip ''q4'') \<noteq> ''MRQ''" by code_simp
  from resolve_period_order [OF d r] a r show ?thesis by simp
qed

theorem same_end_date_counterexample:
  "resolve_period example_library same_end_contexts (Some ''FY2020'')
     = Inr [''year'', ''half'', ''nine'']
   \<and> map (\<lambda>cid. context_end_date example_library (the (dict_get same_end_contexts cid)))
         [''year'', ''half'', ''nine'']
       = [Some (2020, 12, 31, 0, 0, 0, 0), Some (2020, 12, 31, 0, 0, 0, 0),
          Some (2020, 12, 31, 0, 0, 0, 0)]
   \<and> map (\<lambda>cid. parse_date example_library (period_start (the (dict_get same_end_contexts cid))))
         [''year'', ''half'', ''nine'']
       = [Some (2020, 1, 1, 0, 0, 0, 0), Some (2020, 7, 1, 0, 0, 0, 0),
          Some (2020, 4, 1, 0, 0, 0, 0)]"
  by code_simp

text \<open>
  C1. For every filing, every tag and every non-empty period alias for which the period
  resolver returns a list: when the alias resolves to at least one context id and no fact
  matching the tag refers to one of these ids, \<open>get_fact\<close> returns \<open>None\<close>. When the alias
  resolves to no context id, the period filter is skipped and \<open>get_fact\<close> returns the
  best-ranked of all facts matching the tag; it returns \<open>None\<close> only when no fact matches
  the tag.
\<close>

theorem get_fact_period_filter:
  assumes "pa \<noteq> []"
    and "resolve_period lib contexts (Some pa) = Inr cids"
  shows "(cids \<noteq> [] \<and> (\<forall>f \<in> set (get_facts_by_tag facts tag_or_tags). \<not> refers_to f cids)
            \<longrightarrow> get_fact lib facts contexts tag_or_tags (Some pa) = Inr None)
    \<and> (cids = [] \<and> get_facts_by_tag facts tag_or_tags \<noteq> []
            \<longrightarrow> get_fact lib facts contexts tag_or_tags (Some pa)
                  = Inr (Some (hd (sort_key
                      (\<lambda>f. fact_sort_key lib f contexts (preferred_period_type (Some pa)))
                      (get_facts_by_tag facts tag_or_tags))))
                \<and> hd (sort_key
                      (\<lambda>f. fact_sort_key lib f contexts (preferred_period_type (Some pa)))
                      (get_facts_by_tag facts tag_or_tags))
                    \<in> set (get_facts_by_tag facts tag_or_tags))
    \<and> (get_facts_by_tag facts tag_or_tags = []
            \<longrightarrow> get_fact lib facts contexts tag_or_tags (Some pa) = Inr None)"
proof (intro conjI impI)
  assume "cids \<noteq> [] \<and> (\<forall>f \<in> set (get_facts_by_tag facts tag_or_tags). \<not> refers_to f cids)"
  then have "cids \<noteq> []"
    "filter (\<lambda>f. refers_to f cids) (get_facts_by_tag facts tag_or_tags) = []"
    by (simp_all add: filter_empty_conv)
  with assms show "get_fact lib facts contexts tag_or_tags (Some pa) = Inr None"
    by (simp add: get_fact_def Let_def)
next
  assume a: "cids = [] \<and> get_facts_by_tag facts tag_or_tags \<noteq> []"
  with assms show "get_fact lib facts contexts tag_or_tags (Some pa)
      = Inr (Some (hd (sort_key
          (\<lambda>f. fact_sort_key lib f contexts (preferred_period_type (Some pa)))
          (get_facts_by_tag facts tag_or_tags))))"
    by (simp add: get_fact_def Let_def)
  let ?s = "sort_key (\<lambda>f. fact_sort_key lib f contexts (preferred_period_type (Some pa)))
              (get_facts_by_tag facts tag_or_tags)"
  from a have "?s \<noteq> []" by (metis length_0_conv length_sort)
  then have "hd ?s \<in> set ?s" by (rule hd_in_set)
  then show "hd ?s \<in> set (get_facts_by_tag facts tag_or_tags)" by simp
next
  assume "get_facts_by_tag facts tag_or_tags = []"
  then show "get_fact lib facts contexts tag_or_tags (Some pa) = Inr None"
    by (simp add: get_fact_def Let_def)
qed

theorem get_fact_period_filter_witness:
  "resolve_period example_library fiscal_contexts (Some ''FY2020'') = Inr [''fy2020'']
   \<and> get_facts_by_tag [revenue_2021] (OneTag ''us-gaap:Revenues'') = [revenue_2021]
   \<and> get_fact example_library [revenue_2021] fiscal_contexts (OneTag ''us-gaap:Revenues'')
         (Some ''FY2020'') = Inr None"
proof -
  have r: "resolve_period example_library fiscal_contexts (Some ''FY2020'') = Inr [''fy2020'']"
    by code_simp
  have c: "get_facts_by_tag [revenue_2021] (OneTag ''us-gaap:Revenues'') = [revenue_2021]"
    by code_simp
  have n: "\<not> refers_to revenue_2021 [''fy2020'']" by code_simp
  from get_fact_period_filter [OF _ r, of "[revenue_2021]" "OneTag ''us-gaap:Revenues''"]
    r c n show ?thesis by simp
qed

theorem unresolved_period_counterexample:
  "resolve_period example_library fiscal_contexts (Some ''FY1999'') = Inr []
   \<and> get_fact example_library [revenue_2021] fiscal_contexts (OneTag ''us-gaap:Revenues'')
         (Some ''FY1999'') = Inr (Some revenue_2021)"
  by code_simp

section \<open>Properties of the identities\<close>

lemma dict_get_filter_keys:
  "dict_get (filter (\<lambda>(k, v). P k) d) k = (if P k then dict_get d k else None)"
  by (induction d) (auto simp: dict_get_def)

lemma eval_expr_lookup:
  "(\<And>s. s \<in> set (expr_symbols e) \<Longrightarrow> dict_get a s = dict_get b s) \<Longrightarrow>
     eval_expr a e = eval_expr b e"
  by (induction e) (simp_all cong: option.case_cong)

lemma eval_expr_bound:
  "eval_expr subs e = Some y \<Longrightarrow> s \<in> set (expr_symbols e) \<Longrightarrow> dict_get subs s \<noteq> None"
  by (induction e arbitrary: y) (auto split: option.splits if_splits)

lemma eval_expr_other:
  assumes "eval_expr subs e = Some y" "dict_get subs target = None"
  shows "eval_expr (dict_set subs target x) e = Some y"
proof -
  have "eval_expr (dict_set subs target x) e = eval_expr subs e"
  proof (rule eval_expr_lookup)
    fix s assume "s \<in> set (expr_symbols e)"
    from eval_expr_bound [OF assms(1) this] assms(2) have "s \<noteq> target" by auto
    then show "dict_get (dict_set subs target x) s = dict_get subs s"
      by (simp add: dict_get_dict_set)
  qed
  with assms(1) show ?thesis by simp
qed

lemma isolate_sound:
  assumes "dict_get subs target = None"
  shows "isolate subs target e v = Some r \<Longrightarrow>
           eval_expr (dict_set subs target (Some r)) e = Some v"
proof (induction e arbitrary: v)
  case (Sym s)
  then show ?case by (simp add: dict_get_dict_set split: if_splits)
next
  case (Num x)
  then show ?case by simp
next
  case (Add a b)
  then show ?case
    by (auto simp: eval_expr_other [OF _ assms] split: if_splits option.splits)
next
  case (Sub a b)
  then show ?case
    by (auto simp: eval_expr_other [OF _ assms] split: if_splits option.splits)
next
  case (Mul a b)
  then show ?case
    by (auto simp: eval_expr_other [OF _ assms] split: if_splits option.splits)
next
  case (Div a b)
  then show ?case
    by (auto simp: eval_expr_other [OF _ assms] split: if_splits option.splits)
qed


text \<open>What a successful solve step says about the substitution.\<close>

lemma spec_solve_result:
  assumes "spec_solve eq subs target = Inr sols" "filter (\<lambda>sol. sol \<noteq> None) sols = sol # rest"
  shows "dict_get subs target = None \<and> (\<exists>v r. sol = Some r
    \<and> (target \<in> set (expr_symbols (fst eq)) \<and> eval_expr subs (snd eq) = Some v
           \<and> isolate subs target (fst eq) v = Some r
         \<or> target \<notin> set (expr_symbols (fst eq)) \<and> eval_expr subs (fst eq) = Some v
           \<and> isolate subs target (snd eq) v = Some r))"
proof -
  from assms have u: "dict_get subs target = None"
    by (auto simp: spec_solve_def split: if_splits)
  show ?thesis
  proof (cases "target \<in> set (expr_symbols (fst eq))")
    case True
    with assms u obtain v where v: "eval_expr subs (snd eq) = Some v"
      by (cases "eval_expr subs (snd eq)") (auto simp: spec_solve_def split: if_splits)
    with assms u True obtain r where "isolate subs target (fst eq) v = Some r" "sol = Some r"
      by (cases "isolate subs target (fst eq) v") (auto simp: spec_solve_def split: if_splits)
    with u v True show ?thesis by blast
  next
    case False
    with assms u obtain v where v: "eval_expr subs (fst eq) = Some v"
      by (cases "eval_expr subs (fst eq)") (auto simp: spec_solve_def split: if_splits)
    with assms u False obtain r where "isolate subs target (snd eq) v = Some r" "sol = Some r"
      by (cases "isolate subs target (snd eq) v") (auto simp: spec_solve_def split: if_splits)
    with u v False show ?thesis by blast
  qed
qed

lemma round_trip_sides:
  assumes "dict_get subs target = None"
    and "target \<in> set (expr_symbols (fst eq)) \<and> eval_expr subs (snd eq) = Some v
           \<and> isolate subs target (fst eq) v = Some r
         \<or> target \<notin> set (expr_symbols (fst eq)) \<and> eval_expr subs (fst eq) = Some v
           \<and> isolate subs target (snd eq) v = Some r"
  shows "eval_expr (dict_set subs target (Some r)) (fst eq) = Some v
    \<and> eval_expr (dict_set subs target (Some r)) (snd eq) = Some v"
  using assms(2) isolate_sound [OF assms(1)] eval_expr_other [OF _ assms(1)] by blast

text \<open>
  C4. Solve and substitute round trip. For every identity name, every target and every
  dictionary of knowns: when \<open>solve_identity\<close> returns a value for the target, evaluating
  the identity under the knowns extended with that value gives the difference zero. The
  solve step is the one the specification describes, and the arithmetic is that of the
  real numbers, where the difference is exactly zero.
\<close>

theorem solve_substitute_round_trip:
  assumes "solve_identity spec_solve name knowns target = Inr r"
  shows "evaluate_identity name (dict_set knowns target (Some r)) = Inr 0"
proof -
  from assms obtain eq where eq: "dict_get IDENTITIES name = Some eq"
    by (auto simp: solve_identity_def split: option.splits)
  let ?P = "\<lambda>k. k \<in> set (free_symbols eq)"
  let ?S = "filter (\<lambda>(k, v). ?P k) knowns"
  from assms eq have t: "?P target"
    by (auto simp: solve_identity_def split: if_splits)
  from assms eq t obtain sols sol rest where
    s: "spec_solve eq ?S target = Inr sols" "filter (\<lambda>sol. sol \<noteq> None) sols = sol # rest"
      "r = the sol"
    by (auto simp: solve_identity_def Let_def split: sum.splits list.splits)
  from spec_solve_result [OF s(1,2)] s(3) obtain v where
    u: "dict_get ?S target = None"
    and c: "target \<in> set (expr_symbols (fst eq)) \<and> eval_expr ?S (snd eq) = Some v
              \<and> isolate ?S target (fst eq) v = Some r
            \<or> target \<notin> set (expr_symbols (fst eq)) \<and> eval_expr ?S (fst eq) = Some v
              \<and> isolate ?S target (snd eq) v = Some r"
    by (metis (no_types, lifting) option.sel)
  let ?S' = "filter (\<lambda>(k, v). ?P k) (dict_set knowns target (Some r))"
  have same: "eval_expr ?S' e = eval_expr (dict_set ?S target (Some r)) e" for e
    by (rule eval_expr_lookup) (use t in \<open>simp add: dict_get_filter_keys dict_get_dict_set\<close>)
  from round_trip_sides [OF u c]
  have "eval_expr ?S' (fst eq) = Some v" "eval_expr ?S' (snd eq) = Some v"
    by (simp_all add: same)
  with eq show ?thesis by (simp add: evaluate_identity_def Let_def)
qed

theorem solve_substitute_round_trip_witness:
  "solve_identity spec_solve ''CAC_Identity'' acquisition_knowns ''GrossNewCustomers'' = Inr 10
   \<and> evaluate_identity ''CAC_Identity''
         (dict_set acquisition_knowns ''GrossNewCustomers'' (Some 10)) = Inr 0"
proof -
  have s: "solve_identity spec_solve ''CAC_Identity'' acquisition_knowns ''GrossNewCustomers''
             = Inr 10"
    by code_simp
  from solve_substitute_round_trip [OF s] s show ?thesis by simp
qed

end
